theory Spec2Isabelle
  imports Complex_Main
begin

section \<open>Vehicle motion model (client/src/entities/Car.js)\<close>

text \<open>
  JavaScript numbers are idealised as real numbers: \<open>Math.sin\<close>, \<open>Math.cos\<close>,
  \<open>Math.sqrt\<close>, \<open>Math.max\<close> and \<open>Math.min\<close> are the functions of the same name
  on \<open>real\<close>, and \<open>Math.atan2\<close> is defined below from \<open>arctan\<close>.
\<close>

subsection \<open>Data\<close>

text \<open>A Babylon \<open>Vector3\<close>, with the two operations \<open>Car.update\<close> uses.\<close>

record vector3 =
  vec_x :: real
  vec_y :: real
  vec_z :: real

definition vec_scale :: "vector3 \<Rightarrow> real \<Rightarrow> vector3" where
  "vec_scale v k = \<lparr>vec_x = vec_x v * k, vec_y = vec_y v * k, vec_z = vec_z v * k\<rparr>"

definition vec_add :: "vector3 \<Rightarrow> vector3 \<Rightarrow> vector3" where
  "vec_add v w = \<lparr>vec_x = vec_x v + vec_x w, vec_y = vec_y v + vec_y w, vec_z = vec_z v + vec_z w\<rparr>"

text \<open>The per-tick input struct built by \<open>InputManager.getInput\<close>.\<close>

record input =
  accelerate :: bool
  brake :: bool
  turnLeft :: bool
  turnRight :: bool

text \<open>
  The fields of a \<open>Car\<close> that \<open>update\<close> reads and writes: \<open>mesh.position\<close>,
  \<open>mesh.rotation\<close>, \<open>currentSpeed\<close> and \<open>rotation\<close>.
\<close>

record car =
  position :: vector3
  mesh_rotation :: vector3
  currentSpeed :: real
  rotation :: real

subsection \<open>Constants (client/src/utils/constants.js, \<open>CAR_CONFIG\<close>)\<close>

definition maxSpeed :: real where "maxSpeed = 40"
definition acceleration :: real where "acceleration = 30"
definition deceleration :: real where "deceleration = 12"
definition brakeForce :: real where "brakeForce = 40"
definition turnSpeed :: real where "turnSpeed = 1.8"

subsection \<open>\<open>Math.atan2\<close>\<close>

text \<open>\<open>atan2 y x\<close> is the angle of the point \<open>(x, y)\<close>, in \<open>(-pi, pi]\<close>, and 0 at the origin.\<close>

definition atan2 :: "real \<Rightarrow> real \<Rightarrow> real" where
  "atan2 y x =
     (if 0 < x then arctan (y / x)
      else if x < 0 \<and> 0 \<le> y then arctan (y / x) + pi
      else if x < 0 \<and> y < 0 then arctan (y / x) - pi
      else if 0 < y then pi / 2
      else if y < 0 then - (pi / 2)
      else 0)"

subsection \<open>\<open>Car.update(input, deltaTime)\<close>\<close>

text \<open>Steering: the value of \<open>this.rotation\<close> after the first block of \<open>update\<close>.\<close>

definition minSpeedToTurn :: real where "minSpeedToTurn = 0.5"

definition turnDirection :: "input \<Rightarrow> real" where
  "turnDirection inp = (if turnRight inp then 1 else 0) - (if turnLeft inp then 1 else 0)"

definition reverseMultiplier :: "real \<Rightarrow> real" where
  "reverseMultiplier v = (if 0 \<le> v then 1 else - 1)"

definition steering :: "car \<Rightarrow> input \<Rightarrow> real \<Rightarrow> real" where
  "steering c inp deltaTime =
     (if minSpeedToTurn < \<bar>currentSpeed c\<bar>
      then rotation c
           + turnDirection inp * turnSpeed * reverseMultiplier (currentSpeed c) * deltaTime
      else rotation c)"

text \<open>Acceleration: the value of \<open>this.currentSpeed\<close> after the second block.\<close>

definition accelerate_speed :: "real \<Rightarrow> input \<Rightarrow> real \<Rightarrow> real" where
  "accelerate_speed v inp deltaTime =
     (if accelerate inp then v + acceleration * deltaTime
      else if brake inp then v - brakeForce * deltaTime
      else if 0 < v then max 0 (v - deceleration * deltaTime)
      else if v < 0 then min 0 (v + deceleration * deltaTime)
      else v)"

text \<open>Clamp speed.\<close>

definition clamp_speed :: "real \<Rightarrow> real" where
  "clamp_speed v = (let maxReverse = maxSpeed * 0.3 in max (- maxReverse) (min maxSpeed v))"

text \<open>Movement: the candidate position \<open>newPos\<close>.\<close>

definition newPos :: "vector3 \<Rightarrow> real \<Rightarrow> real \<Rightarrow> real \<Rightarrow> vector3" where
  "newPos pos rot v deltaTime =
     (let forward = \<lparr>vec_x = sin rot, vec_y = 0, vec_z = cos rot\<rparr>;
          moveAmount = vec_scale forward (v * deltaTime)
      in vec_add pos moveAmount)"

definition distFromCenter :: "vector3 \<Rightarrow> real" where
  "distFromCenter p = sqrt (vec_x p * vec_x p + vec_z p * vec_z p)"

definition innerRadius :: real where "innerRadius = 25 + 2"
definition outerRadius :: real where "outerRadius = 45 - 2"

definition Car_update :: "input \<Rightarrow> real \<Rightarrow> car \<Rightarrow> car" where
  "Car_update inp deltaTime c =
     (let rot = steering c inp deltaTime;
          v = clamp_speed (accelerate_speed (currentSpeed c) inp deltaTime);
          np = newPos (position c) rot v deltaTime;
          dist = distFromCenter np;
          c' = (if innerRadius \<le> dist \<and> dist \<le> outerRadius
                then c\<lparr>position := np, currentSpeed := v, rotation := rot\<rparr>
                else let angle = atan2 (vec_x (position c)) (vec_z (position c));
                         clampedDist = max (innerRadius + 1) (min (outerRadius - 1) dist)
                     in c\<lparr>position := (position c)\<lparr>vec_x := sin angle * clampedDist,
                                                      vec_z := cos angle * clampedDist\<rparr>,
                          currentSpeed := v * (- 0.3),
                          rotation := rot\<rparr>)
      in c'\<lparr>mesh_rotation := \<lparr>vec_x = 0, vec_y = rotation c', vec_z = 0\<rparr>\<rparr>)"

text \<open>The states after each call of a sequence of \<open>update\<close> calls.\<close>

fun Car_updates :: "car \<Rightarrow> (input \<times> real) list \<Rightarrow> car list" where
  "Car_updates c [] = []"
| "Car_updates c ((inp, deltaTime) # rest) =
     (let c' = Car_update inp deltaTime c in c' # Car_updates c' rest)"

definition within_track :: "car \<Rightarrow> bool" where
  "within_track c \<longleftrightarrow>
     innerRadius \<le> distFromCenter (position c) \<and> distFromCenter (position c) \<le> outerRadius"


section \<open>Race progress tracker (class \<open>CheckpointSystem\<close>, client/src/entities/Checkpoint.js)\<close>

text \<open>
  The source of the class is the second document of the file README.md, which follows
  the project's readme there; the line numbers of the claims refer to that file.
  Timestamps, durations and alpha values are real numbers, counters are naturals.
  \<open>console.log\<close> calls are left out.
\<close>

subsection \<open>Data\<close>

datatype race_state = Waiting | Countdown | Racing | Finished

text \<open>
  A timestamp field holds \<open>null\<close> or a number. The code tests such fields for
  truthiness (\<open>!this.raceStartTime\<close>, \<open>this.lastLapTime ? \<dots>\<close>), which is false on
  \<open>null\<close> and on 0, and subtracts them, where \<open>null\<close> counts as 0.
\<close>

definition truthy :: "real option \<Rightarrow> bool" where
  "truthy t = (case t of None \<Rightarrow> False | Some v \<Rightarrow> v \<noteq> 0)"

definition to_number :: "real option \<Rightarrow> real" where
  "to_number t = (case t of None \<Rightarrow> 0 | Some v \<Rightarrow> v)"

text \<open>The only exception these methods can raise: a property read on \<open>undefined\<close>.\<close>

datatype error = TypeError

text \<open>The argument \<open>trackDefinition\<close> of the constructor; only the two radii are read.\<close>

record track_definition =
  def_innerRadius :: real
  def_outerRadius :: real

text \<open>
  An entry of \<open>this.checkpoints\<close>. Of the mesh only \<open>mesh.material.alpha\<close> is kept,
  the one property that \<open>hitCheckpoint\<close> writes.
\<close>

record checkpoint =
  cp_index :: nat
  cp_position :: vector3
  cp_radius :: real
  cp_angle :: real
  cp_mesh_alpha :: real

text \<open>
  Callbacks handed to \<open>setTimeout\<close> and not yet run: the closure \<open>tick\<close> of
  \<open>startCountdown\<close>, and the closure of \<open>hitCheckpoint\<close> that restores the alpha of
  checkpoint \<open>index\<close> to \<open>originalAlpha\<close>. Each is kept with its delay in milliseconds.
\<close>

datatype timer = Tick | Unflash nat real

text \<open>Calls of the callbacks \<open>onTick\<close>, \<open>onGo\<close>, \<open>onLapComplete\<close>, \<open>onRaceFinish\<close>.\<close>

datatype event =
    OnTick int
  | OnGo
  | OnLapComplete nat real
  | OnRaceFinish real "real option"

text \<open>
  The fields of a \<open>CheckpointSystem\<close>. \<open>onLapComplete\<close> and \<open>onRaceFinish\<close> record
  whether a callback was passed (the code tests them before calling). \<open>pending\<close> is
  not a field of the class: it is the part of the event loop's timer queue that this
  object has filled.
\<close>

record checkpoint_system =
  checkpoints :: "checkpoint list"
  currentCheckpoint :: nat
  lapCount :: nat
  totalLaps :: nat
  raceStartTime :: "real option"
  lapTimes :: "real list"
  lastLapTime :: "real option"
  bestLapTime :: "real option"
  raceState :: race_state
  countdownValue :: int
  onLapComplete :: bool
  onRaceFinish :: bool
  pending :: "(nat \<times> timer) list"

text \<open>
  The values \<open>performance.now()\<close> returns during one call of \<open>update\<close> or
  \<open>hitCheckpoint\<close>: the read in \<open>update\<close>, the read in \<open>completeLap\<close> and the read in
  \<open>finishRace\<close>.
\<close>

record clock_reads =
  now_update :: real
  now_lap :: real
  now_finish :: real

subsection \<open>Construction\<close>

definition createCheckpoints :: "track_definition \<Rightarrow> checkpoint list" where
  "createCheckpoints trackDef =
     (let trackWidth = def_outerRadius trackDef - def_innerRadius trackDef;
          centerRadius = (def_innerRadius trackDef + def_outerRadius trackDef) / 2;
          checkpointAngles = [0, pi / 2, pi, pi * 1.5]
      in map (\<lambda>(index, angle).
                \<lparr>cp_index = index,
                 cp_position = \<lparr>vec_x = cos angle * centerRadius, vec_y = 0,
                                vec_z = sin angle * centerRadius\<rparr>,
                 cp_radius = trackWidth / 2 + 2,
                 cp_angle = angle,
                 cp_mesh_alpha = 0.4\<rparr>)
             (enumerate 0 checkpointAngles))"

definition CheckpointSystem :: "track_definition \<Rightarrow> bool \<Rightarrow> bool \<Rightarrow> checkpoint_system" where
  "CheckpointSystem trackDefinition onLap onFinish =
     \<lparr>checkpoints = createCheckpoints trackDefinition,
      currentCheckpoint = 0,
      lapCount = 0,
      totalLaps = 3,
      raceStartTime = None,
      lapTimes = [],
      lastLapTime = None,
      bestLapTime = None,
      raceState = Waiting,
      countdownValue = 3,
      onLapComplete = onLap,
      onRaceFinish = onFinish,
      pending = []\<rparr>"

subsection \<open>Methods\<close>

definition vec_distance :: "vector3 \<Rightarrow> vector3 \<Rightarrow> real" where
  "vec_distance a b =
     sqrt ((vec_x a - vec_x b) * (vec_x a - vec_x b)
         + (vec_y a - vec_y b) * (vec_y a - vec_y b)
         + (vec_z a - vec_z b) * (vec_z a - vec_z b))"

definition finishRace :: "real \<Rightarrow> checkpoint_system \<Rightarrow> checkpoint_system \<times> event list" where
  "finishRace now s =
     (let s1 = s\<lparr>raceState := Finished\<rparr>;
          totalTime = now - to_number (raceStartTime s1)
      in (s1, if onRaceFinish s1 then [OnRaceFinish totalTime (bestLapTime s1)] else []))"

definition completeLap :: "clock_reads \<Rightarrow> checkpoint_system \<Rightarrow> checkpoint_system \<times> event list" where
  "completeLap clk s =
     (let s1 = s\<lparr>lapCount := lapCount s + 1, currentCheckpoint := 0\<rparr>;
          now = now_lap clk;
          lapTime = (if truthy (lastLapTime s1) then now - to_number (lastLapTime s1)
                     else now - to_number (raceStartTime s1));
          s2 = s1\<lparr>lastLapTime := Some now, lapTimes := lapTimes s1 @ [lapTime]\<rparr>;
          s3 = (if \<not> truthy (bestLapTime s2) \<or> lapTime < to_number (bestLapTime s2)
                then s2\<lparr>bestLapTime := Some lapTime\<rparr> else s2);
          lapEvents = (if onLapComplete s3 then [OnLapComplete (lapCount s3) lapTime] else [])
      in if totalLaps s3 \<le> lapCount s3
         then (let (s4, finishEvents) = finishRace (now_finish clk) s3
               in (s4, lapEvents @ finishEvents))
         else (s3, lapEvents))"

definition hitCheckpoint ::
  "nat \<Rightarrow> clock_reads \<Rightarrow> checkpoint_system \<Rightarrow> error + checkpoint_system \<times> event list" where
  "hitCheckpoint index clk s =
     (if index \<noteq> currentCheckpoint s then Inr (s, [])
      else if length (checkpoints s) \<le> index then Inl TypeError
      else
        let cp = checkpoints s ! index;
            originalAlpha = cp_mesh_alpha cp;
            s1 = s\<lparr>checkpoints := (checkpoints s)[index := cp\<lparr>cp_mesh_alpha := 0.8\<rparr>],
                   pending := pending s @ [(200, Unflash index originalAlpha)]\<rparr>;
            s2 = s1\<lparr>currentCheckpoint := currentCheckpoint s1 + 1\<rparr>
        in if length (checkpoints s2) \<le> currentCheckpoint s2
           then Inr (completeLap clk s2)
           else Inr (s2, []))"

definition CheckpointSystem_update ::
  "vector3 \<Rightarrow> clock_reads \<Rightarrow> checkpoint_system \<Rightarrow> error + checkpoint_system \<times> event list" where
  "CheckpointSystem_update carPosition clk s =
     (if raceState s \<noteq> Racing then Inr (s, [])
      else if totalLaps s \<le> lapCount s then Inr (s, [])
      else
        let s1 = (if \<not> truthy (raceStartTime s)
                  then s\<lparr>raceStartTime := Some (now_update clk)\<rparr> else s)
        in if length (checkpoints s1) \<le> currentCheckpoint s1 then Inl TypeError
           else
             let targetCheckpoint = checkpoints s1 ! currentCheckpoint s1;
                 distance = vec_distance
                              \<lparr>vec_x = vec_x carPosition, vec_y = 0, vec_z = vec_z carPosition\<rparr>
                              (cp_position targetCheckpoint)
             in if distance < cp_radius targetCheckpoint
                then hitCheckpoint (currentCheckpoint s1) clk s1
                else Inr (s1, []))"

definition startCountdown :: "checkpoint_system \<Rightarrow> checkpoint_system" where
  "startCountdown s =
     s\<lparr>raceState := Countdown, countdownValue := 3, pending := pending s @ [(500, Tick)]\<rparr>"

text \<open>The closure \<open>tick\<close> of \<open>startCountdown\<close>, run by the event loop at time \<open>now\<close>.\<close>

definition tick :: "real \<Rightarrow> checkpoint_system \<Rightarrow> checkpoint_system \<times> event list" where
  "tick now s =
     (if 0 < countdownValue s
      then (s\<lparr>countdownValue := countdownValue s - 1, pending := pending s @ [(1000, Tick)]\<rparr>,
            [OnTick (countdownValue s)])
      else (s\<lparr>raceState := Racing, raceStartTime := Some now\<rparr>, [OnGo]))"

text \<open>
  The event loop runs the \<open>k\<close>-th pending callback and drops it from the queue. Which
  callback is due is left to the caller.
\<close>

definition runTimer :: "nat \<Rightarrow> real \<Rightarrow> checkpoint_system \<Rightarrow> checkpoint_system \<times> event list" where
  "runTimer k now s =
     (if k < length (pending s)
      then let s1 = s\<lparr>pending := take k (pending s) @ drop (Suc k) (pending s)\<rparr>
           in (case snd (pending s ! k) of
                 Tick \<Rightarrow> tick now s1
               | Unflash index originalAlpha \<Rightarrow>
                   (s1\<lparr>checkpoints :=
                         (checkpoints s1)[index :=
                            (checkpoints s1 ! index)\<lparr>cp_mesh_alpha := originalAlpha\<rparr>]\<rparr>, []))
      else (s, []))"

definition canMove :: "checkpoint_system \<Rightarrow> bool" where
  "canMove s \<longleftrightarrow> raceState s = Racing"

definition getTotalTime :: "real \<Rightarrow> checkpoint_system \<Rightarrow> real" where
  "getTotalTime now s =
     (if \<not> truthy (raceStartTime s) then 0
      else if raceState s = Finished then foldl (\<lambda>a b. a + b) 0 (lapTimes s)
      else now - to_number (raceStartTime s))"

definition reset :: "checkpoint_system \<Rightarrow> checkpoint_system" where
  "reset s =
     s\<lparr>currentCheckpoint := 0,
       lapCount := 0,
       raceStartTime := None,
       lapTimes := [],
       lastLapTime := None,
       bestLapTime := None,
       raceState := Waiting,
       countdownValue := 3\<rparr>"

subsection \<open>Sequences of calls\<close>

datatype action =
    StartCountdown
  | Timer nat real
  | Update vector3 clock_reads
  | HitCheckpoint nat clock_reads
  | Reset

fun perform :: "action \<Rightarrow> checkpoint_system \<Rightarrow> error + checkpoint_system \<times> event list" where
  "perform StartCountdown s = Inr (startCountdown s, [])"
| "perform (Timer k now) s = Inr (runTimer k now s)"
| "perform (Update carPosition clk) s = CheckpointSystem_update carPosition clk s"
| "perform (HitCheckpoint index clk) s = hitCheckpoint index clk s"
| "perform Reset s = Inr (reset s, [])"

text \<open>A sequence of calls stops at the first exception; the notifications accumulate.\<close>

fun run :: "action list \<Rightarrow> checkpoint_system \<Rightarrow> error + checkpoint_system \<times> event list" where
  "run [] s = Inr (s, [])"
| "run (a # rest) s =
     (case perform a s of
        Inl e \<Rightarrow> Inl e
      | Inr (s1, ev1) \<Rightarrow>
          (case run rest s1 of
             Inl e \<Rightarrow> Inl e
           | Inr (s2, ev2) \<Rightarrow> Inr (s2, ev1 @ ev2)))"

text \<open>The states a tracker built as \<open>c0\<close> reaches by any sequence of calls.\<close>

inductive reachable :: "checkpoint_system \<Rightarrow> checkpoint_system \<Rightarrow> bool" for c0 where
  reachable_init: "reachable c0 c0"
| reachable_step: "reachable c0 s \<Longrightarrow> perform a s = Inr (s', ev) \<Longrightarrow> reachable c0 s'"

text \<open>
  A race session as \<open>Game\<close> drives it: \<open>startCountdown\<close>, the timer callbacks, \<open>update\<close>
  once per frame and \<open>reset\<close>, but no call of \<open>hitCheckpoint\<close> from outside. The list is
  the notifications issued since construction or the last \<open>reset\<close>.
\<close>

fun game_action :: "action \<Rightarrow> bool" where
  "game_action (HitCheckpoint index clk) = False"
| "game_action a = True"

inductive session :: "checkpoint_system \<Rightarrow> checkpoint_system \<Rightarrow> event list \<Rightarrow> bool" for c0 where
  session_init: "session c0 c0 []"
| session_step: "session c0 s evs \<Longrightarrow> game_action a \<Longrightarrow> perform a s = Inr (s', ev) \<Longrightarrow>
                 session c0 s' (if a = Reset then [] else evs @ ev)"

fun is_race_finish :: "event \<Rightarrow> bool" where
  "is_race_finish (OnRaceFinish totalTime best) = True"
| "is_race_finish e = False"


subsection \<open>Parts of the methods, named for the statements below\<close>

text \<open>The \<open>lapTime\<close> that \<open>completeLap\<close> computes in state \<open>s\<close>.\<close>

definition lapTime_of :: "clock_reads \<Rightarrow> checkpoint_system \<Rightarrow> real" where
  "lapTime_of clk s = (if truthy (lastLapTime s) then now_lap clk - to_number (lastLapTime s)
                     else now_lap clk - to_number (raceStartTime s))"


text \<open>
  The state \<open>hitCheckpoint\<close> leaves when the index matches, before it tests for a
  completed lap: the checkpoint flashed, the restore scheduled, the index advanced.
\<close>

definition flashed :: "checkpoint_system \<Rightarrow> checkpoint_system" where
  "flashed s = s\<lparr>checkpoints := (checkpoints s)[currentCheckpoint s :=
                     (checkpoints s ! currentCheckpoint s)\<lparr>cp_mesh_alpha := 0.8\<rparr>],
                 pending := pending s @ [(200, Unflash (currentCheckpoint s)
                     (cp_mesh_alpha (checkpoints s ! currentCheckpoint s)))],
                 currentCheckpoint := currentCheckpoint s + 1\<rparr>"


text \<open>The proximity test of \<open>update\<close>.\<close>

definition in_zone :: "checkpoint \<Rightarrow> vector3 \<Rightarrow> bool" where
  "in_zone cp carPosition \<longleftrightarrow>
     vec_distance \<lparr>vec_x = vec_x carPosition, vec_y = 0, vec_z = vec_z carPosition\<rparr> (cp_position cp)
       < cp_radius cp"


text \<open>The fallback of \<open>update\<close> that starts the timer when it is not running.\<close>

definition started :: "clock_reads \<Rightarrow> checkpoint_system \<Rightarrow> checkpoint_system" where
  "started clk s = (if \<not> truthy (raceStartTime s) then s\<lparr>raceStartTime := Some (now_update clk)\<rparr> else s)"


definition advance :: "clock_reads \<Rightarrow> checkpoint_system \<Rightarrow> checkpoint_system" where
  "advance clk s = flashed (started clk s)"


text \<open>What of a checkpoint is geometry: everything but the alpha of its mesh.\<close>

definition geometry :: "checkpoint \<Rightarrow> nat \<times> vector3 \<times> real \<times> real" where
  "geometry cp = (cp_index cp, cp_position cp, cp_radius cp, cp_angle cp)"



text \<open>
  What holds of the state and of the notifications of a session that was built with an
  \<open>onRaceFinish\<close> callback: the invariant behind the race-completion theorem.
\<close>

definition session_inv :: "checkpoint_system \<Rightarrow> event list \<Rightarrow> bool" where
  "session_inv s evs \<longleftrightarrow>
     totalLaps s = 3 \<and> onRaceFinish s \<and> lapCount s \<le> totalLaps s \<and>
     length (filter is_race_finish evs) = (if lapCount s = totalLaps s then 1 else 0) \<and>
     (0 \<notin> set (lapTimes s) \<longrightarrow>
        bestLapTime s = (if lapTimes s = [] then None else Some (Min (set (lapTimes s)))))"


section \<open>Properties of the vehicle motion model\<close>

subsection \<open>Geometry\<close>

lemma polar_square: "(s * d) * (s * d) + (k * d) * (k * d) = (s * s + k * k) * (d * d)" for s d k :: real
  by (simp add: algebra_simps)

lemma dist_polar: "sqrt ((sin a * d) * (sin a * d) + (cos a * d) * (cos a * d)) = \<bar>d\<bar>"
proof -
  have "sin a * sin a + cos a * cos a = 1"
    using sin_cos_squared_add[of a] by (simp add: power2_eq_square)
  then have "(sin a * d) * (sin a * d) + (cos a * d) * (cos a * d) = d * d"
    by (simp only: polar_square mult_1)
  then show ?thesis by (simp only: real_sqrt_abs2)
qed

lemma sin_cos_atan2:
  assumes "x \<noteq> 0 \<or> y \<noteq> 0"
  shows "sin (atan2 y x) = y / sqrt (x * x + y * y) \<and> cos (atan2 y x) = x / sqrt (x * x + y * y)"
proof -
  have pos: "x \<noteq> 0 \<Longrightarrow> sqrt (1 + (y / x)\<^sup>2) = sqrt (x * x + y * y) / \<bar>x\<bar>" 
  proof -
    assume x: "x \<noteq> 0"
    have "1 + (y / x)\<^sup>2 = (x * x + y * y) / (x\<^sup>2)" using x
      by (simp add: power2_eq_square field_simps)
    then show ?thesis by (simp add: real_sqrt_divide)
  qed
  have r: "0 < sqrt (x * x + y * y)" using assms
    by (metis add_pos_nonneg add_nonneg_pos not_real_square_gt_zero real_sqrt_gt_0_iff zero_le_square)
  consider "0 < x" | "x < 0" "0 \<le> y" | "x < 0" "y < 0" | "x = 0" "0 < y" | "x = 0" "y < 0"
    using assms by linarith
  then show ?thesis
  proof cases
    case 1
    then show ?thesis using pos r by (simp add: atan2_def sin_arctan cos_arctan)
  next
    case 2
    then show ?thesis using pos r by (simp add: atan2_def sin_arctan cos_arctan)
  next
    case 3
    then show ?thesis using pos r by (simp add: atan2_def sin_arctan cos_arctan)
  next
    case 4
    then show ?thesis by (simp add: atan2_def)
  next
    case 5
    then show ?thesis by (simp add: atan2_def)
  qed
qed

lemma clamped_bounds: "innerRadius + 1 \<le> max (innerRadius + 1) (min (outerRadius - 1) d) \<and>
  max (innerRadius + 1) (min (outerRadius - 1) d) \<le> outerRadius - 1"
  by (simp add: innerRadius_def outerRadius_def)


lemma same_angle:
  assumes "0 < distFromCenter p"
  shows "sin (atan2 (vec_x p) (vec_z p)) * k = vec_x p * (k / distFromCenter p) \<and>
         cos (atan2 (vec_x p) (vec_z p)) * k = vec_z p * (k / distFromCenter p)"
proof -
  have "vec_z p \<noteq> 0 \<or> vec_x p \<noteq> 0" using assms by (auto simp: distFromCenter_def)
  from sin_cos_atan2[OF this] show ?thesis
    by (simp add: distFromCenter_def add.commute)
qed


lemma dist_on_axis: "distFromCenter \<lparr>vec_x = 0, vec_y = y, vec_z = z\<rparr> = \<bar>z\<bar>"
  by (simp add: distFromCenter_def)


subsection \<open>The boundary invariant\<close>

lemma update_within: "within_track (Car_update inp dt c)"
proof -
  let ?np = "newPos (position c) (steering c inp dt) (clamp_speed (accelerate_speed (currentSpeed c) inp dt)) dt"
  let ?d = "distFromCenter ?np"
  let ?cd = "max (innerRadius + 1) (min (outerRadius - 1) ?d)"
  let ?a = "atan2 (vec_x (position c)) (vec_z (position c))"
  show ?thesis
  proof (cases "innerRadius \<le> ?d \<and> ?d \<le> outerRadius")
    case True
    then show ?thesis by (simp add: within_track_def Car_update_def Let_def)
  next
    case False
    have b: "innerRadius \<le> ?cd \<and> ?cd \<le> outerRadius" 
      using clamped_bounds[of ?d] by linarith
    have "0 \<le> ?cd" using clamped_bounds[of ?d] by (simp add: innerRadius_def)
    then have eq: "distFromCenter ((position c)\<lparr>vec_x := sin ?a * ?cd, vec_z := cos ?a * ?cd\<rparr>) = ?cd"
      by (simp add: distFromCenter_def dist_polar)
    have "position (Car_update inp dt c) = (position c)\<lparr>vec_x := sin ?a * ?cd, vec_z := cos ?a * ?cd\<rparr>"
      by (simp add: Car_update_def Let_def False)
    then show ?thesis unfolding within_track_def using eq b by presburger
  qed
qed

lemma updates_within: "list_all within_track (Car_updates c steps)"
  by (induction c steps rule: Car_updates.induct) (simp_all add: Let_def update_within)

text \<open>
  Claim C1. For every vehicle state, every input struct and every \<open>deltaTime\<close>
  (non-negative or not), the position after \<open>Car.update\<close> has a planar distance from the
  track centre within \<open>[innerRadius + carBuffer, outerRadius - carBuffer] = [27, 43]\<close>;
  the same holds after every call of any sequence of \<open>update\<close> calls.
\<close>

theorem Car_update_boundary_invariant:
  "innerRadius = 27 \<and> outerRadius = 43 \<and>
   innerRadius \<le> distFromCenter (position (Car_update inp deltaTime c)) \<and>
   distFromCenter (position (Car_update inp deltaTime c)) \<le> outerRadius \<and>
   (\<forall>c' \<in> set (Car_updates c steps).
      innerRadius \<le> distFromCenter (position c') \<and> distFromCenter (position c') \<le> outerRadius)"
proof -
  have "within_track (Car_update inp deltaTime c)" by (rule update_within)
  moreover have "list_all within_track (Car_updates c steps)" by (rule updates_within)
  ultimately show ?thesis
    by (simp add: within_track_def list_all_iff innerRadius_def outerRadius_def)
qed

theorem Car_update_boundary_invariant_witness:
  "(let c = \<lparr>position = \<lparr>vec_x = 35, vec_y = 0.5, vec_z = 0\<rparr>,
             mesh_rotation = \<lparr>vec_x = 0, vec_y = 0, vec_z = 0\<rparr>,
             currentSpeed = 0, rotation = 0\<rparr>;
        inp = \<lparr>accelerate = True, brake = False, turnLeft = False, turnRight = True\<rparr>;
        c1 = Car_update inp 0.016 c;
        c2 = Car_update inp 0.016 c1
    in Car_updates c [(inp, 0.016), (inp, 0.016)] = [c1, c2] \<and>
       27 \<le> distFromCenter (position c2) \<and> distFromCenter (position c2) \<le> 43)"
proof -
  let ?c = "\<lparr>position = \<lparr>vec_x = 35, vec_y = 0.5, vec_z = 0\<rparr>,
             mesh_rotation = \<lparr>vec_x = 0, vec_y = 0, vec_z = 0\<rparr>,
             currentSpeed = 0, rotation = 0\<rparr>"
  let ?inp = "\<lparr>accelerate = True, brake = False, turnLeft = False, turnRight = True\<rparr>"
  let ?steps = "[(?inp, 0.016), (?inp, 0.016)]"
  let ?c2 = "Car_update ?inp 0.016 (Car_update ?inp 0.016 ?c)"
  have run: "Car_updates ?c ?steps = [Car_update ?inp 0.016 ?c, ?c2]"
    by (simp add: Let_def)
  then have "?c2 \<in> set (Car_updates ?c ?steps)" by simp
  with Car_update_boundary_invariant[of ?inp "0.016" ?c ?steps]
  have "27 \<le> distFromCenter (position ?c2) \<and> distFromCenter (position ?c2) \<le> 43"
    by metis
  with run show ?thesis unfolding Let_def by blast
qed

subsection \<open>Wall strikes\<close>

lemma strike_position:
  assumes "\<not> (innerRadius \<le> distFromCenter (newPos (position c) (steering c inp dt) (clamp_speed (accelerate_speed (currentSpeed c) inp dt)) dt)
       \<and> distFromCenter (newPos (position c) (steering c inp dt) (clamp_speed (accelerate_speed (currentSpeed c) inp dt)) dt) \<le> outerRadius)"
  shows "Car_update inp dt c =
     c\<lparr>position := (position c)\<lparr>
          vec_x := sin (atan2 (vec_x (position c)) (vec_z (position c))) *
                   max (innerRadius + 1) (min (outerRadius - 1) (distFromCenter (newPos (position c) (steering c inp dt) (clamp_speed (accelerate_speed (currentSpeed c) inp dt)) dt))),
          vec_z := cos (atan2 (vec_x (position c)) (vec_z (position c))) *
                   max (innerRadius + 1) (min (outerRadius - 1) (distFromCenter (newPos (position c) (steering c inp dt) (clamp_speed (accelerate_speed (currentSpeed c) inp dt)) dt)))\<rparr>,
        currentSpeed := clamp_speed (accelerate_speed (currentSpeed c) inp dt) * (- 0.3),
        rotation := steering c inp dt,
        mesh_rotation := \<lparr>vec_x = 0, vec_y = steering c inp dt, vec_z = 0\<rparr>\<rparr>"
  by (simp add: Car_update_def Let_def assms)

lemma scenario_speed:
  "16 \<le> clamp_speed (accelerate_speed 20 inp 0.1) \<and> clamp_speed (accelerate_speed 20 inp 0.1) \<le> 23"
  by (simp add: clamp_speed_def accelerate_speed_def maxSpeed_def acceleration_def brakeForce_def deceleration_def Let_def)

lemma scenario_turn:
  assumes "currentSpeed c = 20" "rotation c = th"
  shows "\<bar>steering c inp 0.1 - th\<bar> \<le> 0.18"
  using assms
  by (simp add: steering_def minSpeedToTurn_def turnDirection_def turnSpeed_def reverseMultiplier_def)

lemma cos_small: assumes "\<bar>dl\<bar> \<le> 0.18" shows "1/2 \<le> cos (dl::real)"
proof -
  have "\<bar>dl\<bar> \<le> 2 / 3" using assms by simp
  then have "\<bar>dl\<bar> \<le> pi / 3" using pi_ge_two by linarith
  then have "cos (pi / 3) \<le> cos \<bar>dl\<bar>"
    using cos_monotone_0_pi_le[of "\<bar>dl\<bar>" "pi / 3"] pi_ge_two by simp
  then show ?thesis by (simp add: cos_60)
qed


lemma cosine_rule:
  "(d * s + s' * m) * (d * s + s' * m) + (d * k + k' * m) * (d * k + k' * m) =
     d * d * (s * s + k * k) + 2 * d * m * (s * s' + k * k') + m * m * (s' * s' + k' * k')"
  for d m s s' k k' :: real
  by (simp add: algebra_simps)

lemma scenario_dist:
  fixes d m th dl :: real
  assumes d: "outerRadius - 0.1 \<le> d" and m: "16 \<le> v" "v \<le> 23" and dl: "\<bar>dl\<bar> \<le> 0.18"
  shows "outerRadius < distFromCenter (newPos \<lparr>vec_x = d * sin th, vec_y = y, vec_z = d * cos th\<rparr> (th + dl) v 0.1)"
proof -
  let ?m = "v * 0.1"
  let ?x = "d * sin th + sin (th + dl) * ?m" 
  let ?z = "d * cos th + cos (th + dl) * ?m"
  have d': "42.9 \<le> d" using d by (simp add: outerRadius_def)
  have m': "1.6 \<le> ?m" using m by simp
  have c: "1/2 \<le> cos dl" using dl by (rule cos_small)
  have cd: "sin th * sin (th + dl) + cos th * cos (th + dl) = cos dl"
    using cos_diff[of "th + dl" th] by (simp add: algebra_simps)
  have s1: "sin th * sin th + cos th * cos th = 1"
    using sin_cos_squared_add[of th] by (simp add: power2_eq_square)
  have s2: "sin (th + dl) * sin (th + dl) + cos (th + dl) * cos (th + dl) = 1"
    using sin_cos_squared_add[of "th + dl"] by (simp add: power2_eq_square)
  have expand: "?x * ?x + ?z * ?z = d * d + 2 * d * ?m * cos dl + ?m * ?m"
    by (simp only: cosine_rule cd s1 s2 mult_1_right)
  define dd dm mm P where "dd = d * d" and "dm = d * ?m" and "mm = ?m * ?m" and "P = d * ?m * cos dl"
  have e: "?x * ?x + ?z * ?z = dd + 2 * P + mm"
    unfolding expand dd_def dm_def mm_def P_def by simp
  have "42.9 * 1.6 \<le> d * ?m" using d' m' by (intro mult_mono) auto
  then have 1: "68 \<le> dm" by (simp add: dm_def)
  have "dm * (1/2) \<le> dm * cos dl" using 1 c by (intro mult_left_mono) auto
  then have 2: "dm / 2 \<le> P" by (simp add: dm_def P_def)
  have "42.9 * 42.9 \<le> d * d" using d' by (intro mult_mono) auto
  then have 3: "1840 \<le> dd" by (simp add: dd_def)
  have 4: "0 \<le> mm" by (simp add: mm_def)
  have "43 * 43 < dd + 2 * P + mm" using 1 2 3 4 by linarith
  then have "43 * 43 < ?x * ?x + ?z * ?z" by (simp only: e)
  then have "sqrt (43 * 43) < sqrt (?x * ?x + ?z * ?z)" by (rule real_sqrt_less_mono)
  then show ?thesis by (simp add: distFromCenter_def newPos_def vec_add_def vec_scale_def outerRadius_def Let_def)
qed

text \<open>
  Claim C7. In a tick whose candidate position lies outside \<open>[innerRadius, outerRadius]\<close>
  (Car.js's names for the two bounds 27 and 43), the speed left by the acceleration and
  clamp steps is multiplied by \<open>-0.3\<close>, and the vehicle is put at the angle of its
  pre-update position, on the same ray from the centre, at the candidate's distance
  clamped into \<open>[innerRadius + 1, outerRadius - 1]\<close>; its height is kept. In particular a
  vehicle at distance at least \<open>outerRadius - 0.1\<close> that heads radially outward at speed
  20 ends a tick of 0.1 s, whatever the input, with a negative speed and at distance
  \<open>outerRadius - 1\<close>.
\<close>

theorem Car_update_wall_strike:
  "(let v = clamp_speed (accelerate_speed (currentSpeed c) inp deltaTime);
        dist = distFromCenter (newPos (position c) (steering c inp deltaTime) v deltaTime);
        angle = atan2 (vec_x (position c)) (vec_z (position c));
        clampedDist = max (innerRadius + 1) (min (outerRadius - 1) dist);
        c' = Car_update inp deltaTime c
    in \<not> (innerRadius \<le> dist \<and> dist \<le> outerRadius) \<longrightarrow>
         currentSpeed c' = v * (- 0.3) \<and>
         vec_x (position c') = sin angle * clampedDist \<and>
         vec_z (position c') = cos angle * clampedDist \<and>
         vec_y (position c') = vec_y (position c) \<and>
         innerRadius + 1 \<le> clampedDist \<and> clampedDist \<le> outerRadius - 1 \<and>
         distFromCenter (position c') = clampedDist \<and>
         (0 < distFromCenter (position c) \<longrightarrow>
            vec_x (position c') = vec_x (position c) * (clampedDist / distFromCenter (position c)) \<and>
            vec_z (position c') = vec_z (position c) * (clampedDist / distFromCenter (position c))))
   \<and> (\<forall>th d y. position c = \<lparr>vec_x = d * sin th, vec_y = y, vec_z = d * cos th\<rparr> \<and> rotation c = th \<and>
          currentSpeed c = 20 \<and> deltaTime = 0.1 \<and> outerRadius - 0.1 \<le> d \<longrightarrow>
          currentSpeed (Car_update inp deltaTime c) < 0 \<and>
          distFromCenter (position (Car_update inp deltaTime c)) = outerRadius - 1)"
proof -
  let ?v = "clamp_speed (accelerate_speed (currentSpeed c) inp deltaTime)"
  let ?dist = "distFromCenter (newPos (position c) (steering c inp deltaTime) ?v deltaTime)"
  let ?angle = "atan2 (vec_x (position c)) (vec_z (position c))"
  let ?cd = "max (innerRadius + 1) (min (outerRadius - 1) ?dist)"
  let ?c' = "Car_update inp deltaTime c"
  have general: "currentSpeed ?c' = ?v * (- 0.3) \<and>
         vec_x (position ?c') = sin ?angle * ?cd \<and>
         vec_z (position ?c') = cos ?angle * ?cd \<and>
         vec_y (position ?c') = vec_y (position c) \<and>
         innerRadius + 1 \<le> ?cd \<and> ?cd \<le> outerRadius - 1 \<and>
         distFromCenter (position ?c') = ?cd \<and>
         (0 < distFromCenter (position c) \<longrightarrow>
            vec_x (position ?c') = vec_x (position c) * (?cd / distFromCenter (position c)) \<and>
            vec_z (position ?c') = vec_z (position c) * (?cd / distFromCenter (position c)))"
    if out: "\<not> (innerRadius \<le> ?dist \<and> ?dist \<le> outerRadius)"
  proof -
    note upd = strike_position[OF out]
    have b: "innerRadius + 1 \<le> ?cd \<and> ?cd \<le> outerRadius - 1" by (rule clamped_bounds)
    then have "0 \<le> ?cd" by (simp add: innerRadius_def)
    then have d: "distFromCenter (position ?c') = ?cd"
      by (simp add: upd distFromCenter_def dist_polar)
    have x: "vec_x (position ?c') = sin ?angle * ?cd" by (simp add: upd)
    have z: "vec_z (position ?c') = cos ?angle * ?cd" by (simp add: upd)
    have y: "vec_y (position ?c') = vec_y (position c)" by (simp add: upd)
    have s: "currentSpeed ?c' = ?v * (- 0.3)" by (simp add: upd)
    show ?thesis using b d x z y s same_angle[of "position c" ?cd] by presburger
  qed
  have scenario: "currentSpeed ?c' < 0 \<and> distFromCenter (position ?c') = outerRadius - 1"
    if pos: "position c = \<lparr>vec_x = d * sin th, vec_y = y, vec_z = d * cos th\<rparr>" and rot: "rotation c = th"
      and sp: "currentSpeed c = 20" and dt: "deltaTime = 0.1" and d: "outerRadius - 0.1 \<le> d"
    for th d y
  proof -
    have v: "16 \<le> ?v \<and> ?v \<le> 23" using scenario_speed[of inp] by (simp add: sp dt)
    have "\<bar>steering c inp deltaTime - th\<bar> \<le> 0.18"
      using scenario_turn[OF sp rot, of inp] by (simp add: dt)
    from scenario_dist[OF d conjunct1[OF v] conjunct2[OF v] this, where y=y and th=th]
    have far: "outerRadius < ?dist" by (simp add: pos dt)
    then have out: "\<not> (innerRadius \<le> ?dist \<and> ?dist \<le> outerRadius)" by simp
    have "?cd = outerRadius - 1" using far by (simp add: innerRadius_def outerRadius_def)
    with general[OF out] v show ?thesis by simp
  qed
  show ?thesis unfolding Let_def using general scenario by blast
qed


theorem Car_update_wall_strike_witness:
  "(let c = \<lparr>position = \<lparr>vec_x = 0, vec_y = 0.5, vec_z = 42.9\<rparr>,
             mesh_rotation = \<lparr>vec_x = 0, vec_y = 0, vec_z = 0\<rparr>,
             currentSpeed = 20, rotation = 0\<rparr>;
        inp = \<lparr>accelerate = False, brake = False, turnLeft = False, turnRight = False\<rparr>
    in distFromCenter (newPos (position c) (steering c inp 0.1)
          (clamp_speed (accelerate_speed (currentSpeed c) inp 0.1)) 0.1) = 44.78 \<and>
       currentSpeed (Car_update inp 0.1 c) = - 5.64 \<and>
       vec_x (position (Car_update inp 0.1 c)) = 0 \<and>
       vec_y (position (Car_update inp 0.1 c)) = 0.5 \<and>
       vec_z (position (Car_update inp 0.1 c)) = 42 \<and>
       distFromCenter (position (Car_update inp 0.1 c)) = outerRadius - 1)"
proof -
  let ?c = "\<lparr>position = \<lparr>vec_x = 0, vec_y = 0.5, vec_z = 42.9\<rparr>,
             mesh_rotation = \<lparr>vec_x = 0, vec_y = 0, vec_z = 0\<rparr>,
             currentSpeed = 20, rotation = 0\<rparr>"
  let ?inp = "\<lparr>accelerate = False, brake = False, turnLeft = False, turnRight = False\<rparr>"
  have v: "clamp_speed (accelerate_speed (currentSpeed ?c) ?inp 0.1) = 18.8"
    by (simp add: clamp_speed_def accelerate_speed_def maxSpeed_def deceleration_def)
  have r: "steering ?c ?inp 0.1 = 0"
    by (simp add: steering_def turnDirection_def)
  have np: "newPos (position ?c) 0 18.8 0.1 = \<lparr>vec_x = 0, vec_y = 0.5, vec_z = 44.78\<rparr>"
    by (simp add: newPos_def vec_add_def vec_scale_def)
  have a: "atan2 (vec_x (position ?c)) (vec_z (position ?c)) = 0"
    by (simp add: atan2_def)
  note T = Car_update_wall_strike[of ?c ?inp "0.1", unfolded Let_def v r np dist_on_axis a]
  show ?thesis
    unfolding Let_def v r np dist_on_axis
    using T by (simp add: innerRadius_def outerRadius_def)
qed

subsection \<open>Steering\<close>

text \<open>
  Claim C8. \<open>Car.update\<close> changes the heading only if the speed at the start of the tick
  exceeds 0.5 in absolute value, and then by \<open>turnDirection * turnRate * deltaTime\<close>,
  with \<open>turnDirection = (turnRight ? 1 : 0) - (turnLeft ? 1 : 0)\<close> and \<open>turnRate = 1.8\<close>,
  negated when the speed is negative. At speed 0, \<open>turnLeft\<close> leaves the heading unchanged
  for every \<open>deltaTime\<close>.
\<close>

theorem Car_update_heading:
  "rotation (Car_update inp deltaTime c) =
     (if 0.5 < \<bar>currentSpeed c\<bar>
      then rotation c
           + (if currentSpeed c < 0 then - 1 else 1)
             * (((if turnRight inp then 1 else 0) - (if turnLeft inp then 1 else 0)) * 1.8 * deltaTime)
      else rotation c)
   \<and> (currentSpeed c = 0 \<and> turnLeft inp \<longrightarrow> rotation (Car_update inp deltaTime c) = rotation c)"
proof -
  have "rotation (Car_update inp deltaTime c) = steering c inp deltaTime"
    by (simp add: Car_update_def Let_def)
  then show ?thesis
    by (simp add: steering_def minSpeedToTurn_def turnDirection_def turnSpeed_def
        reverseMultiplier_def)
qed

theorem Car_update_heading_witness:
  "rotation (Car_update \<lparr>accelerate = True, brake = False, turnLeft = True, turnRight = False\<rparr> 0.25
      \<lparr>position = \<lparr>vec_x = 35, vec_y = 0.5, vec_z = 0\<rparr>,
       mesh_rotation = \<lparr>vec_x = 0, vec_y = 1, vec_z = 0\<rparr>,
       currentSpeed = 0, rotation = 1\<rparr>) = 1"
  using Car_update_heading[of
      "\<lparr>accelerate = True, brake = False, turnLeft = True, turnRight = False\<rparr>" "0.25"
      "\<lparr>position = \<lparr>vec_x = 35, vec_y = 0.5, vec_z = 0\<rparr>,
        mesh_rotation = \<lparr>vec_x = 0, vec_y = 1, vec_z = 0\<rparr>,
        currentSpeed = 0, rotation = 1\<rparr>"]
  by simp


section \<open>Properties of the race progress tracker\<close>

subsection \<open>Construction\<close>

lemma length_createCheckpoints: "length (createCheckpoints td) = 4"
  by (simp add: createCheckpoints_def Let_def)

lemma cos_sin_three_halves_pi: "cos (pi * 3 / 2) = 0 \<and> sin (pi * 3 / 2) = - 1"
proof -
  have e: "pi * 3 / 2 = 3 / 2 * pi" by simp
  show ?thesis unfolding e by (rule conjI[OF cos_3over2_pi sin_3over2_pi])
qed

lemma createCheckpoints_oval:
  "createCheckpoints \<lparr>def_innerRadius = 25, def_outerRadius = 45\<rparr> =
     [\<lparr>cp_index = 0, cp_position = \<lparr>vec_x = 35, vec_y = 0, vec_z = 0\<rparr>, cp_radius = 12, cp_angle = 0, cp_mesh_alpha = 0.4\<rparr>,
      \<lparr>cp_index = 1, cp_position = \<lparr>vec_x = 0, vec_y = 0, vec_z = 35\<rparr>, cp_radius = 12, cp_angle = pi / 2, cp_mesh_alpha = 0.4\<rparr>,
      \<lparr>cp_index = 2, cp_position = \<lparr>vec_x = - 35, vec_y = 0, vec_z = 0\<rparr>, cp_radius = 12, cp_angle = pi, cp_mesh_alpha = 0.4\<rparr>,
      \<lparr>cp_index = 3, cp_position = \<lparr>vec_x = 0, vec_y = 0, vec_z = - 35\<rparr>, cp_radius = 12, cp_angle = pi * 1.5, cp_mesh_alpha = 0.4\<rparr>]"
  unfolding createCheckpoints_def Let_def
  by (simp add: cos_sin_three_halves_pi)

subsection \<open>The methods, branch by branch\<close>

lemma completeLap_state:
  "fst (completeLap clk s) =
     s\<lparr>lapCount := lapCount s + 1, currentCheckpoint := 0,
       lastLapTime := Some (now_lap clk),
       lapTimes := lapTimes s @ [lapTime_of clk s],
       bestLapTime := (if \<not> truthy (bestLapTime s) \<or> lapTime_of clk s < to_number (bestLapTime s)
                       then Some (lapTime_of clk s) else bestLapTime s),
       raceState := (if totalLaps s \<le> lapCount s + 1 then Finished else raceState s)\<rparr>"
  by (simp add: completeLap_def finishRace_def Let_def lapTime_of_def split: prod.splits)

lemma completeLap_events:
  "snd (completeLap clk s) =
     (if onLapComplete s then [OnLapComplete (lapCount s + 1) (lapTime_of clk s)] else []) @
     (if totalLaps s \<le> lapCount s + 1 \<and> onRaceFinish s
      then [OnRaceFinish (now_finish clk - to_number (raceStartTime s))
              (if \<not> truthy (bestLapTime s) \<or> lapTime_of clk s < to_number (bestLapTime s)
                       then Some (lapTime_of clk s) else bestLapTime s)] else [])"
  by (simp add: completeLap_def finishRace_def Let_def lapTime_of_def split: prod.splits)

lemma hitCheckpoint_other: "index \<noteq> currentCheckpoint s \<Longrightarrow> hitCheckpoint index clk s = Inr (s, [])"
  by (simp add: hitCheckpoint_def)

lemma hitCheckpoint_current:
  assumes "currentCheckpoint s < length (checkpoints s)"
  shows "hitCheckpoint (currentCheckpoint s) clk s =
     (if currentCheckpoint s + 1 = length (checkpoints s)
      then Inr (completeLap clk (flashed s)) else Inr (flashed s, []))"
  using assms by (auto simp: hitCheckpoint_def Let_def flashed_def)

lemma update_racing:
  assumes "raceState s = Racing" "lapCount s < totalLaps s"
    "currentCheckpoint s < length (checkpoints s)"
  shows "CheckpointSystem_update p clk s =
     (if in_zone (checkpoints s ! currentCheckpoint s) p
      then hitCheckpoint (currentCheckpoint s) clk (started clk s)
      else Inr (started clk s, []))"
  using assms by (simp add: CheckpointSystem_update_def Let_def in_zone_def started_def)

lemma started_simps:
  "checkpoints (started clk s) = checkpoints s"
  "currentCheckpoint (started clk s) = currentCheckpoint s"
  "lapCount (started clk s) = lapCount s"
  "totalLaps (started clk s) = totalLaps s"
  "lapTimes (started clk s) = lapTimes s"
  "lastLapTime (started clk s) = lastLapTime s"
  "bestLapTime (started clk s) = bestLapTime s"
  "raceState (started clk s) = raceState s"
  "countdownValue (started clk s) = countdownValue s"
  "onLapComplete (started clk s) = onLapComplete s"
  "onRaceFinish (started clk s) = onRaceFinish s"
  "pending (started clk s) = pending s"
  by (simp_all add: started_def)

lemma flashed_simps:
  "length (checkpoints (flashed s)) = length (checkpoints s)"
  "currentCheckpoint (flashed s) = currentCheckpoint s + 1"
  "lapCount (flashed s) = lapCount s"
  "totalLaps (flashed s) = totalLaps s"
  "raceStartTime (flashed s) = raceStartTime s"
  "lapTimes (flashed s) = lapTimes s"
  "lastLapTime (flashed s) = lastLapTime s"
  "bestLapTime (flashed s) = bestLapTime s"
  "raceState (flashed s) = raceState s"
  "countdownValue (flashed s) = countdownValue s"
  "onLapComplete (flashed s) = onLapComplete s"
  "onRaceFinish (flashed s) = onRaceFinish s"
  by (simp_all add: flashed_def)

lemma alpha_geometry:
  "map geometry (xs[i := (xs ! i)\<lparr>cp_mesh_alpha := a\<rparr>]) = map geometry xs"
proof (cases "i < length xs")
  case True
  then show ?thesis
    by (intro nth_equalityI) (auto simp: nth_list_update geometry_def)
next
  case False
  then have "xs[i := (xs ! i)\<lparr>cp_mesh_alpha := a\<rparr>] = xs"
    by (intro list_update_beyond) simp
  then show ?thesis by (simp only:)
qed

lemma flashed_geometry: "map geometry (checkpoints (flashed s)) = map geometry (checkpoints s)"
  by (simp add: flashed_def alpha_geometry)

lemma in_zone_geometry:
  "geometry cp = geometry cp' \<Longrightarrow> in_zone cp p = in_zone cp' p"
  by (simp add: in_zone_def geometry_def)

lemma nth_geometry:
  assumes "map geometry xs = map geometry ys" "i < length xs"
  shows "geometry (xs ! i) = geometry (ys ! i)"
  by (metis assms length_map nth_map)

lemma update_hit:
  assumes "raceState s = Racing" "lapCount s < totalLaps s"
    "currentCheckpoint s < length (checkpoints s)"
    "in_zone (checkpoints s ! currentCheckpoint s) p"
  shows "CheckpointSystem_update p clk s =
     (if currentCheckpoint s + 1 = length (checkpoints s)
      then Inr (completeLap clk (flashed (started clk s)))
      else Inr (flashed (started clk s), []))"
proof -
  have "currentCheckpoint (started clk s) < length (checkpoints (started clk s))"
    using assms(3) by (simp add: started_simps)
  from hitCheckpoint_current[OF this, of clk] update_racing[OF assms(1-3), of p clk] assms(4)
  show ?thesis by (simp add: started_simps)
qed

lemma zone_transfer:
  assumes "map geometry (checkpoints s') = map geometry (checkpoints s)"
    "i < length (checkpoints s)" "in_zone (checkpoints s ! i) p"
  shows "in_zone (checkpoints s' ! i) p"
proof -
  have "length (checkpoints s') = length (checkpoints s)"
    using assms(1) by (rule map_eq_imp_length_eq)
  then have "i < length (checkpoints s')" using assms(2) by simp
  then have "geometry (checkpoints s' ! i) = geometry (checkpoints s ! i)"
    by (rule nth_geometry[OF assms(1)])
  from in_zone_geometry[OF this, of p] assms(3) show ?thesis by (simp only:)
qed

lemma advance_simps:
  "raceState (advance clk s) = raceState s"
  "lapCount (advance clk s) = lapCount s"
  "totalLaps (advance clk s) = totalLaps s"
  "currentCheckpoint (advance clk s) = currentCheckpoint s + 1"
  "length (checkpoints (advance clk s)) = length (checkpoints s)"
  "map geometry (checkpoints (advance clk s)) = map geometry (checkpoints s)"
  "lastLapTime (advance clk s) = lastLapTime s"
  "lapTimes (advance clk s) = lapTimes s"
  "bestLapTime (advance clk s) = bestLapTime s"
  "onLapComplete (advance clk s) = onLapComplete s"
  "onRaceFinish (advance clk s) = onRaceFinish s"
  "countdownValue (advance clk s) = countdownValue s"
  by (simp_all add: advance_def flashed_simps started_simps flashed_geometry)

lemma advance_step:
  assumes "raceState s = Racing" "lapCount s < totalLaps s"
    "currentCheckpoint s + 1 < length (checkpoints s)"
    "in_zone (checkpoints s ! currentCheckpoint s) p"
  shows "CheckpointSystem_update p clk s = Inr (advance clk s, [])"
proof -
  have "currentCheckpoint s < length (checkpoints s)" using assms(3) by simp
  from update_hit[OF assms(1,2) this assms(4), of clk] assms(3)
  show ?thesis by (simp add: advance_def)
qed

lemma advance_last:
  assumes "raceState s = Racing" "lapCount s < totalLaps s"
    "currentCheckpoint s + 1 = length (checkpoints s)"
    "in_zone (checkpoints s ! currentCheckpoint s) p"
  shows "CheckpointSystem_update p clk s = Inr (completeLap clk (advance clk s))"
proof -
  have "currentCheckpoint s < length (checkpoints s)" using assms(3) by simp
  from update_hit[OF assms(1,2) this assms(4), of clk] assms(3)
  show ?thesis by (simp add: advance_def)
qed

lemma hitCheckpoint_cases:
  assumes "hitCheckpoint index clk s = Inr (s', ev)"
  obtains (ignored) "s' = s" "ev = []"
  | (next_checkpoint) "index = currentCheckpoint s" "currentCheckpoint s + 1 < length (checkpoints s)"
      "s' = flashed s" "ev = []"
  | (lap) "index = currentCheckpoint s" "currentCheckpoint s + 1 = length (checkpoints s)"
      "completeLap clk (flashed s) = (s', ev)"
proof (cases "index = currentCheckpoint s")
  case False
  then show ?thesis using assms ignored by (simp add: hitCheckpoint_def)
next
  case True
  then have inr: "currentCheckpoint s < length (checkpoints s)"
    using assms by (simp add: hitCheckpoint_def split: if_splits)
  show ?thesis
  proof (cases "currentCheckpoint s + 1 = length (checkpoints s)")
    case l: True
    then show ?thesis using assms True hitCheckpoint_current[OF inr, of clk] lap by simp
  next
    case False
    then have "currentCheckpoint s + 1 < length (checkpoints s)" using inr by simp
    then show ?thesis
      using assms True hitCheckpoint_current[OF inr, of clk] next_checkpoint by simp
  qed
qed

lemma update_cases:
  assumes "CheckpointSystem_update p clk s = Inr (s', ev)"
  obtains (idle) "raceState s \<noteq> Racing \<or> totalLaps s \<le> lapCount s" "s' = s" "ev = []"
  | (miss) "raceState s = Racing" "lapCount s < totalLaps s" "s' = started clk s" "ev = []"
  | (next_checkpoint) "raceState s = Racing" "lapCount s < totalLaps s"
      "currentCheckpoint s + 1 < length (checkpoints s)" "s' = advance clk s" "ev = []"
  | (lap) "raceState s = Racing" "lapCount s < totalLaps s"
      "currentCheckpoint s + 1 = length (checkpoints s)"
      "completeLap clk (advance clk s) = (s', ev)"
proof (cases "raceState s \<noteq> Racing \<or> totalLaps s \<le> lapCount s")
  case True
  then have "CheckpointSystem_update p clk s = Inr (s, [])"
    by (auto simp: CheckpointSystem_update_def)
  with assms have "s' = s" "ev = []" by simp_all
  with True show ?thesis by (rule idle)
next
  case False
  then have r: "raceState s = Racing" and l: "lapCount s < totalLaps s" by auto
  have inr: "currentCheckpoint s < length (checkpoints s)"
    using assms r l by (simp add: CheckpointSystem_update_def Let_def started_def split: if_splits)
  show ?thesis
  proof (cases "in_zone (checkpoints s ! currentCheckpoint s) p")
    case False
    then show ?thesis using assms update_racing[OF r l inr, of p clk] miss r l by simp
  next
    case True
    note hit = update_hit[OF r l inr True, of clk]
    show ?thesis
    proof (cases "currentCheckpoint s + 1 = length (checkpoints s)")
      case True
      then show ?thesis using assms hit lap r l by (simp add: advance_def)
    next
      case False
      then have "currentCheckpoint s + 1 < length (checkpoints s)" using inr by simp
      then show ?thesis using assms hit next_checkpoint r l by (simp add: advance_def)
    qed
  qed
qed

lemma runTimer_fields:
  "lapCount (fst (runTimer k now s)) = lapCount s"
  "lapTimes (fst (runTimer k now s)) = lapTimes s"
  "totalLaps (fst (runTimer k now s)) = totalLaps s"
  "bestLapTime (fst (runTimer k now s)) = bestLapTime s"
  "onRaceFinish (fst (runTimer k now s)) = onRaceFinish s"
  "onLapComplete (fst (runTimer k now s)) = onLapComplete s"
  "filter is_race_finish (snd (runTimer k now s)) = []"
  by (simp_all add: runTimer_def tick_def Let_def split: timer.splits)

lemma runTimer_geometry:
  "map geometry (checkpoints (fst (runTimer k now s))) = map geometry (checkpoints s)"
  by (simp add: runTimer_def tick_def Let_def alpha_geometry split: timer.splits)

subsection \<open>Checkpoint order\<close>

text \<open>
  Claim C2. \<open>hitCheckpoint(i)\<close> with \<open>i\<close> other than \<open>currentCheckpoint\<close> returns with the
  whole state unchanged and no notification. A hit of the expected checkpoint, which
  succeeds whenever that index is within the checkpoint array (otherwise the code reads
  a property of \<open>undefined\<close> and throws), moves \<open>currentCheckpoint\<close> to its successor
  modulo the number of checkpoints: it wraps to 0 exactly when a lap is completed, and
  only then does \<open>lapCount\<close> grow, by one.
\<close>

theorem hitCheckpoint_order:
  "(index \<noteq> currentCheckpoint s \<longrightarrow> hitCheckpoint index clk s = Inr (s, [])) \<and>
   (currentCheckpoint s < length (checkpoints s) \<longrightarrow>
      (\<exists>s' ev. hitCheckpoint (currentCheckpoint s) clk s = Inr (s', ev) \<and>
         length (checkpoints s') = length (checkpoints s) \<and>
         currentCheckpoint s' = (currentCheckpoint s + 1) mod length (checkpoints s) \<and>
         (if currentCheckpoint s + 1 = length (checkpoints s)
          then currentCheckpoint s' = 0 \<and> lapCount s' = lapCount s + 1
          else currentCheckpoint s' = currentCheckpoint s + 1 \<and> lapCount s' = lapCount s)))"
proof (intro conjI impI)
  assume "index \<noteq> currentCheckpoint s"
  then show "hitCheckpoint index clk s = Inr (s, [])" by (rule hitCheckpoint_other)
next
  assume inr: "currentCheckpoint s < length (checkpoints s)"
  show "\<exists>s' ev. hitCheckpoint (currentCheckpoint s) clk s = Inr (s', ev) \<and>
         length (checkpoints s') = length (checkpoints s) \<and>
         currentCheckpoint s' = (currentCheckpoint s + 1) mod length (checkpoints s) \<and>
         (if currentCheckpoint s + 1 = length (checkpoints s)
          then currentCheckpoint s' = 0 \<and> lapCount s' = lapCount s + 1
          else currentCheckpoint s' = currentCheckpoint s + 1 \<and> lapCount s' = lapCount s)"
  proof (cases "currentCheckpoint s + 1 = length (checkpoints s)")
    case True
    obtain s' ev where c: "completeLap clk (flashed s) = (s', ev)"
      by (cases "completeLap clk (flashed s)")
    then have s': "s' = fst (completeLap clk (flashed s))" by simp
    have "hitCheckpoint (currentCheckpoint s) clk s = Inr (s', ev)"
      using hitCheckpoint_current[OF inr, of clk] True c by simp
    moreover have "length (checkpoints s') = length (checkpoints s)"
      unfolding s' by (simp add: completeLap_state flashed_def)
    moreover have "currentCheckpoint s' = 0"
      unfolding s' by (simp add: completeLap_state)
    moreover have "lapCount s' = lapCount s + 1"
      unfolding s' by (simp add: completeLap_state flashed_def)
    ultimately show ?thesis using True by simp
  next
    case False
    then have "hitCheckpoint (currentCheckpoint s) clk s = Inr (flashed s, [])"
      using hitCheckpoint_current[OF inr, of clk] by simp
    moreover have "length (checkpoints (flashed s)) = length (checkpoints s)"
      "currentCheckpoint (flashed s) = currentCheckpoint s + 1" "lapCount (flashed s) = lapCount s"
      by (simp_all add: flashed_def)
    ultimately show ?thesis using False inr by simp
  qed
qed

theorem hitCheckpoint_order_witness:
  "hitCheckpoint 2 \<lparr>now_update = 4000, now_lap = 4000, now_finish = 4000\<rparr>
      (CheckpointSystem \<lparr>def_innerRadius = 25, def_outerRadius = 45\<rparr> True True)
     = Inr (CheckpointSystem \<lparr>def_innerRadius = 25, def_outerRadius = 45\<rparr> True True, []) \<and>
   (\<exists>s' ev. hitCheckpoint 0 \<lparr>now_update = 4000, now_lap = 4000, now_finish = 4000\<rparr>
      (CheckpointSystem \<lparr>def_innerRadius = 25, def_outerRadius = 45\<rparr> True True) = Inr (s', ev) \<and>
      currentCheckpoint s' = 1 \<and> lapCount s' = 0)"
proof -
  let ?c = "CheckpointSystem \<lparr>def_innerRadius = 25, def_outerRadius = 45\<rparr> True True"
  have f: "currentCheckpoint ?c = 0" "length (checkpoints ?c) = 4" "lapCount ?c = 0"
    by (simp_all add: CheckpointSystem_def length_createCheckpoints)
  from hitCheckpoint_order[of 2 ?c "\<lparr>now_update = 4000, now_lap = 4000, now_finish = 4000\<rparr>"]
  have "hitCheckpoint 2 \<lparr>now_update = 4000, now_lap = 4000, now_finish = 4000\<rparr> ?c = Inr (?c, []) \<and>
     (\<exists>s' ev. hitCheckpoint 0 \<lparr>now_update = 4000, now_lap = 4000, now_finish = 4000\<rparr> ?c = Inr (s', ev) \<and>
        length (checkpoints s') = 4 \<and> currentCheckpoint s' = 1 \<and> lapCount s' = 0)"
    by (simp add: f)
  then show ?thesis by blast
qed

subsection \<open>Lap completion\<close>

text \<open>
  Claim C3. While Racing (and before the last lap is done), with four checkpoints and
  the first one expected, four \<open>update\<close> calls at positions inside the detection zones
  of checkpoints 0, 1, 2, 3 in this order succeed and leave \<open>lapCount\<close> one higher,
  \<open>currentCheckpoint\<close> at 0, \<open>lapTimes\<close> extended by \<open>now - lastLapTime\<close> if a lap
  timestamp is set and by \<open>now - raceStartTime\<close> otherwise, and \<open>lastLapTime\<close> equal to
  \<open>now\<close>, the clock read by \<open>completeLap\<close> in the fourth call. The code takes a timestamp
  of 0 for unset; clock readings after page load are positive, which is the hypothesis
  \<open>lastLapTime s \<noteq> Some 0\<close>.
\<close>

theorem lap_completion:
  assumes racing: "raceState s = Racing" and laps: "lapCount s < totalLaps s"
    and first: "currentCheckpoint s = 0" and four: "length (checkpoints s) = 4"
    and z0: "in_zone (checkpoints s ! 0) p0" and z1: "in_zone (checkpoints s ! 1) p1"
    and z2: "in_zone (checkpoints s ! 2) p2" and z3: "in_zone (checkpoints s ! 3) p3"
    and stamp: "lastLapTime s \<noteq> Some 0"
  shows "\<exists>s' ev. run [Update p0 c0, Update p1 c1, Update p2 c2, Update p3 c3] s = Inr (s', ev) \<and>
     lapCount s' = lapCount s + 1 \<and>
     currentCheckpoint s' = 0 \<and>
     lapTimes s' = lapTimes s @
        [now_lap c3 - (case lastLapTime s of Some t \<Rightarrow> t | None \<Rightarrow> to_number (raceStartTime s'))] \<and>
     lastLapTime s' = Some (now_lap c3)"
proof -
  define s1 where "s1 = advance c0 s"
  define s2 where "s2 = advance c1 s1"
  define s3 where "s3 = advance c2 s2"
  define s4 where "s4 = advance c3 s3"
  have g1: "map geometry (checkpoints s1) = map geometry (checkpoints s)"
    by (simp add: s1_def advance_simps)
  have g2: "map geometry (checkpoints s2) = map geometry (checkpoints s)"
    by (simp add: s2_def advance_simps g1)
  have g3: "map geometry (checkpoints s3) = map geometry (checkpoints s)"
    by (simp add: s3_def advance_simps g2)
  have c1: "currentCheckpoint s1 = 1" by (simp add: s1_def advance_simps first)
  have c2: "currentCheckpoint s2 = 2" by (simp add: s2_def advance_simps c1)
  have c3: "currentCheckpoint s3 = 3" by (simp add: s3_def advance_simps c2)
  have l1: "length (checkpoints s1) = 4" by (simp add: s1_def advance_simps four)
  have l2: "length (checkpoints s2) = 4" by (simp add: s2_def advance_simps l1)
  have l3: "length (checkpoints s3) = 4" by (simp add: s3_def advance_simps l2)
  have r1: "raceState s1 = Racing" by (simp add: s1_def advance_simps racing)
  have r2: "raceState s2 = Racing" by (simp add: s2_def advance_simps r1)
  have r3: "raceState s3 = Racing" by (simp add: s3_def advance_simps r2)
  have n1: "lapCount s1 < totalLaps s1" using laps by (simp add: s1_def advance_simps)
  have n2: "lapCount s2 < totalLaps s2" using n1 by (simp add: s2_def advance_simps)
  have n3: "lapCount s3 < totalLaps s3" using n2 by (simp add: s3_def advance_simps)
  have u0: "CheckpointSystem_update p0 c0 s = Inr (s1, [])"
    unfolding s1_def using z0 by (intro advance_step racing laps) (simp_all add: first four)
  have u1: "CheckpointSystem_update p1 c1 s1 = Inr (s2, [])"
    unfolding s2_def using zone_transfer[OF g1 _ z1]
    by (intro advance_step r1 n1) (simp_all add: c1 l1 four)
  have u2: "CheckpointSystem_update p2 c2 s2 = Inr (s3, [])"
    unfolding s3_def using zone_transfer[OF g2 _ z2]
    by (intro advance_step r2 n2) (simp_all add: c2 l2 four)
  have u3: "CheckpointSystem_update p3 c3 s3 = Inr (completeLap c3 s4)"
    unfolding s4_def using zone_transfer[OF g3 _ z3]
    by (intro advance_last r3 n3) (simp_all add: c3 l3 four)
  obtain s' ev where c: "completeLap c3 s4 = (s', ev)" by (cases "completeLap c3 s4")
  then have s': "s' = fst (completeLap c3 s4)" by simp
  have r: "run [Update p0 c0, Update p1 c1, Update p2 c2, Update p3 c3] s = Inr (s', ev)"
    by (simp add: u0 u1 u2 u3 c)
  have keep: "lapCount s4 = lapCount s" "lapTimes s4 = lapTimes s" "lastLapTime s4 = lastLapTime s"
    by (simp_all add: s4_def s3_def s2_def s1_def advance_simps)
  have t: "truthy (lastLapTime s) \<longleftrightarrow> lastLapTime s \<noteq> None"
    using stamp by (cases "lastLapTime s") (simp_all add: truthy_def)
  have lc: "lapCount s' = lapCount s + 1"
    unfolding s' by (simp add: completeLap_state keep)
  have cc: "currentCheckpoint s' = 0"
    unfolding s' by (simp add: completeLap_state)
  have rs: "raceStartTime s' = raceStartTime s4"
    unfolding s' by (simp add: completeLap_state)
  have "lapTime_of c3 s4 = now_lap c3 - (case lastLapTime s of Some t \<Rightarrow> t | None \<Rightarrow> to_number (raceStartTime s4))"
    using t by (cases "lastLapTime s") (simp_all add: lapTime_of_def keep to_number_def)
  then have lt: "lapTimes s' = lapTimes s @
        [now_lap c3 - (case lastLapTime s of Some t \<Rightarrow> t | None \<Rightarrow> to_number (raceStartTime s'))]"
    unfolding rs unfolding s' by (simp add: completeLap_state keep)
  have ll: "lastLapTime s' = Some (now_lap c3)"
    unfolding s' by (simp add: completeLap_state)
  from r lc cc lt ll show ?thesis by blast
qed

theorem lap_completion_witness:
  "(let s = (CheckpointSystem \<lparr>def_innerRadius = 25, def_outerRadius = 45\<rparr> True True)
              \<lparr>raceState := Racing, raceStartTime := Some 3500\<rparr>
    in raceState s = Racing \<and> lapCount s < totalLaps s \<and> currentCheckpoint s = 0 \<and>
       length (checkpoints s) = 4 \<and>
       in_zone (checkpoints s ! 0) \<lparr>vec_x = 35, vec_y = 0.5, vec_z = 0\<rparr> \<and>
       in_zone (checkpoints s ! 1) \<lparr>vec_x = 0, vec_y = 0.5, vec_z = 35\<rparr> \<and>
       in_zone (checkpoints s ! 2) \<lparr>vec_x = - 35, vec_y = 0.5, vec_z = 0\<rparr> \<and>
       in_zone (checkpoints s ! 3) \<lparr>vec_x = 0, vec_y = 0.5, vec_z = - 35\<rparr> \<and>
       lastLapTime s \<noteq> Some 0 \<and>
       (\<exists>s' ev. run [Update \<lparr>vec_x = 35, vec_y = 0.5, vec_z = 0\<rparr> \<lparr>now_update = 5000, now_lap = 5000, now_finish = 5000\<rparr>,
                     Update \<lparr>vec_x = 0, vec_y = 0.5, vec_z = 35\<rparr> \<lparr>now_update = 6000, now_lap = 6000, now_finish = 6000\<rparr>,
                     Update \<lparr>vec_x = - 35, vec_y = 0.5, vec_z = 0\<rparr> \<lparr>now_update = 7000, now_lap = 7000, now_finish = 7000\<rparr>,
                     Update \<lparr>vec_x = 0, vec_y = 0.5, vec_z = - 35\<rparr> \<lparr>now_update = 8000, now_lap = 8000, now_finish = 8001\<rparr>] s
                  = Inr (s', ev) \<and>
          lapCount s' = 1 \<and> currentCheckpoint s' = 0 \<and>
          lapTimes s' = [8000 - to_number (raceStartTime s')] \<and> lastLapTime s' = Some 8000))"
proof -
  let ?s = "(CheckpointSystem \<lparr>def_innerRadius = 25, def_outerRadius = 45\<rparr> True True)
              \<lparr>raceState := Racing, raceStartTime := Some 3500\<rparr>"
  have h: "raceState ?s = Racing" "lapCount ?s < totalLaps ?s" "currentCheckpoint ?s = 0"
    "length (checkpoints ?s) = 4"
    "in_zone (checkpoints ?s ! 0) \<lparr>vec_x = 35, vec_y = 0.5, vec_z = 0\<rparr>"
    "in_zone (checkpoints ?s ! 1) \<lparr>vec_x = 0, vec_y = 0.5, vec_z = 35\<rparr>"
    "in_zone (checkpoints ?s ! 2) \<lparr>vec_x = - 35, vec_y = 0.5, vec_z = 0\<rparr>"
    "in_zone (checkpoints ?s ! 3) \<lparr>vec_x = 0, vec_y = 0.5, vec_z = - 35\<rparr>"
    "lastLapTime ?s \<noteq> Some 0"
    by (simp_all add: CheckpointSystem_def createCheckpoints_oval in_zone_def vec_distance_def)
  have e: "lapCount ?s = 0" "lapTimes ?s = []" "lastLapTime ?s = None"
    by (simp_all add: CheckpointSystem_def)
  from lap_completion[OF h, of
      "\<lparr>now_update = 5000, now_lap = 5000, now_finish = 5000\<rparr>"
      "\<lparr>now_update = 6000, now_lap = 6000, now_finish = 6000\<rparr>"
      "\<lparr>now_update = 7000, now_lap = 7000, now_finish = 7000\<rparr>"
      "\<lparr>now_update = 8000, now_lap = 8000, now_finish = 8001\<rparr>"]
  have "\<exists>s' ev. run [Update \<lparr>vec_x = 35, vec_y = 0.5, vec_z = 0\<rparr> \<lparr>now_update = 5000, now_lap = 5000, now_finish = 5000\<rparr>,
                     Update \<lparr>vec_x = 0, vec_y = 0.5, vec_z = 35\<rparr> \<lparr>now_update = 6000, now_lap = 6000, now_finish = 6000\<rparr>,
                     Update \<lparr>vec_x = - 35, vec_y = 0.5, vec_z = 0\<rparr> \<lparr>now_update = 7000, now_lap = 7000, now_finish = 7000\<rparr>,
                     Update \<lparr>vec_x = 0, vec_y = 0.5, vec_z = - 35\<rparr> \<lparr>now_update = 8000, now_lap = 8000, now_finish = 8001\<rparr>] ?s
                  = Inr (s', ev) \<and>
          lapCount s' = 1 \<and> currentCheckpoint s' = 0 \<and>
          lapTimes s' = [8000 - to_number (raceStartTime s')] \<and> lastLapTime s' = Some 8000"
    unfolding e by simp
  with h show ?thesis unfolding Let_def by blast
qed

subsection \<open>\<open>update\<close> outside the Racing state\<close>

text \<open>
  Claim C5. In a state that is not Racing (Waiting, Countdown or Finished), \<open>update\<close>
  returns normally for every position, with every field unchanged and no notification.
\<close>

theorem update_outside_racing:
  "raceState s \<noteq> Racing \<Longrightarrow> CheckpointSystem_update carPosition clk s = Inr (s, [])"
  by (simp add: CheckpointSystem_update_def)

theorem update_outside_racing_witness:
  "raceState (startCountdown (CheckpointSystem \<lparr>def_innerRadius = 25, def_outerRadius = 45\<rparr> True True)) = Countdown \<and>
   CheckpointSystem_update \<lparr>vec_x = 35, vec_y = 0.5, vec_z = 0\<rparr>
      \<lparr>now_update = 100, now_lap = 100, now_finish = 100\<rparr>
      (startCountdown (CheckpointSystem \<lparr>def_innerRadius = 25, def_outerRadius = 45\<rparr> True True))
    = Inr (startCountdown (CheckpointSystem \<lparr>def_innerRadius = 25, def_outerRadius = 45\<rparr> True True), [])"
proof -
  have c: "raceState (startCountdown (CheckpointSystem \<lparr>def_innerRadius = 25, def_outerRadius = 45\<rparr> True True)) = Countdown"
    by (simp add: startCountdown_def)
  then have "raceState (startCountdown (CheckpointSystem \<lparr>def_innerRadius = 25, def_outerRadius = 45\<rparr> True True)) \<noteq> Racing"
    by simp
  from update_outside_racing[OF this] c show ?thesis by simp
qed

subsection \<open>\<open>lapCount\<close> counts the entries of \<open>lapTimes\<close>\<close>

lemma completeLap_count:
  "completeLap clk s = (s', ev) \<Longrightarrow> lapCount s = length (lapTimes s) \<Longrightarrow>
     lapCount s' = length (lapTimes s')"
  using completeLap_state[of clk s] by simp

lemma perform_lapCount:
  assumes "perform a s = Inr (s', ev)" "lapCount s = length (lapTimes s)"
  shows "lapCount s' = length (lapTimes s')"
proof (cases a)
  case StartCountdown
  then show ?thesis using assms by (auto simp: startCountdown_def)
next
  case (Timer k now)
  then have "s' = fst (runTimer k now s)" using assms(1) by auto
  then show ?thesis using assms(2) by (simp add: runTimer_fields)
next
  case (Update p clk)
  then have "CheckpointSystem_update p clk s = Inr (s', ev)" using assms(1) by simp
  then show ?thesis
  proof (cases rule: update_cases)
    case lap
    then show ?thesis using completeLap_count[OF lap(4)] assms(2) by (simp add: advance_simps)
  qed (use assms(2) in \<open>simp_all add: advance_simps started_simps\<close>)
next
  case (HitCheckpoint index clk)
  then have "hitCheckpoint index clk s = Inr (s', ev)" using assms(1) by simp
  then show ?thesis
  proof (cases rule: hitCheckpoint_cases)
    case lap
    then show ?thesis using completeLap_count[OF lap(3)] assms(2) by (simp add: flashed_simps)
  qed (use assms(2) in \<open>simp_all add: flashed_simps\<close>)
next
  case Reset
  then show ?thesis using assms by (auto simp: reset_def)
qed

lemma reachable_run:
  "reachable c0 s \<Longrightarrow> run acts s = Inr (s', ev) \<Longrightarrow> reachable c0 s'"
proof (induction acts arbitrary: s ev)
  case Nil
  then show ?case by simp
next
  case (Cons a acts)
  from Cons.prems(2) obtain s1 ev1 ev2 where p: "perform a s = Inr (s1, ev1)"
    and r: "run acts s1 = Inr (s', ev2)"
    by (auto split: sum.splits prod.splits)
  from Cons.prems(1) p have "reachable c0 s1" by (rule reachable_step)
  then show ?case using r by (rule Cons.IH)
qed

text \<open>
  Claim C10. In every state reached from construction by any sequence of
  \<open>startCountdown\<close>, timer callbacks, \<open>update\<close>, \<open>hitCheckpoint\<close> and \<open>reset\<close> calls,
  \<open>lapCount\<close> equals the number of entries of \<open>lapTimes\<close>.
\<close>

theorem lapCount_counts_lapTimes:
  "reachable (CheckpointSystem trackDefinition onLap onFinish) s \<Longrightarrow>
     lapCount s = length (lapTimes s)"
proof (induction rule: reachable.induct)
  case reachable_init
  show ?case by (simp add: CheckpointSystem_def)
next
  case (reachable_step s a s' ev)
  then show ?case using perform_lapCount by blast
qed

theorem lapCount_counts_lapTimes_witness:
  "(case run [HitCheckpoint 0 \<lparr>now_update = 1000, now_lap = 1000, now_finish = 1000\<rparr>,
         Reset, StartCountdown,
         HitCheckpoint 0 \<lparr>now_update = 1000, now_lap = 1000, now_finish = 1000\<rparr>,
         HitCheckpoint 1 \<lparr>now_update = 1000, now_lap = 1000, now_finish = 1000\<rparr>,
         HitCheckpoint 2 \<lparr>now_update = 1000, now_lap = 1000, now_finish = 1000\<rparr>,
         HitCheckpoint 3 \<lparr>now_update = 1000, now_lap = 1000, now_finish = 1000\<rparr>]
      (CheckpointSystem \<lparr>def_innerRadius = 25, def_outerRadius = 45\<rparr> True True) of
     Inl e \<Rightarrow> False
   | Inr (s, ev) \<Rightarrow>
       reachable (CheckpointSystem \<lparr>def_innerRadius = 25, def_outerRadius = 45\<rparr> True True) s \<and>
       lapTimes s = [1000] \<and> lapCount s = 1)"
proof -
  let ?c = "CheckpointSystem \<lparr>def_innerRadius = 25, def_outerRadius = 45\<rparr> True True"
  let ?acts = "[HitCheckpoint 0 \<lparr>now_update = 1000, now_lap = 1000, now_finish = 1000\<rparr>,
         Reset, StartCountdown,
         HitCheckpoint 0 \<lparr>now_update = 1000, now_lap = 1000, now_finish = 1000\<rparr>,
         HitCheckpoint 1 \<lparr>now_update = 1000, now_lap = 1000, now_finish = 1000\<rparr>,
         HitCheckpoint 2 \<lparr>now_update = 1000, now_lap = 1000, now_finish = 1000\<rparr>,
         HitCheckpoint 3 \<lparr>now_update = 1000, now_lap = 1000, now_finish = 1000\<rparr>]"
  have "\<exists>s ev. run ?acts ?c = Inr (s, ev) \<and> lapTimes s = [1000]"
    by (simp add: hitCheckpoint_def CheckpointSystem_def createCheckpoints_oval Let_def
        completeLap_def finishRace_def truthy_def to_number_def reset_def startCountdown_def)
  then obtain s ev where r: "run ?acts ?c = Inr (s, ev)" and t: "lapTimes s = [1000]" by blast
  have reach: "reachable ?c s" using reachable_run[OF reachable_init r] .
  from lapCount_counts_lapTimes[OF reach] t have "lapCount s = 1" by simp
  with reach t show ?thesis unfolding r by simp
qed


subsection \<open>Race completion\<close>

lemma best_after_lap:
  assumes inv: "0 \<notin> set (lapTimes s) \<longrightarrow>
        bestLapTime s = (if lapTimes s = [] then None else Some (Min (set (lapTimes s))))"
    and nz: "0 \<notin> set (lapTimes (fst (completeLap clk s)))"
  shows "bestLapTime (fst (completeLap clk s)) = Some (Min (set (lapTimes (fst (completeLap clk s)))))"
proof -
  let ?lt = "lapTime_of clk s"
  have times: "lapTimes (fst (completeLap clk s)) = lapTimes s @ [?lt]"
    by (simp add: completeLap_state)
  have best: "bestLapTime (fst (completeLap clk s)) =
      (if \<not> truthy (bestLapTime s) \<or> ?lt < to_number (bestLapTime s) then Some ?lt else bestLapTime s)"
    by (simp add: completeLap_state)
  from nz times have nz': "0 \<notin> set (lapTimes s)" and lt: "?lt \<noteq> 0" by auto
  show ?thesis
  proof (cases "lapTimes s = []")
    case True
    with inv nz' have "bestLapTime s = None" by simp
    then show ?thesis unfolding best times using True by (simp add: truthy_def)
  next
    case False
    let ?m = "Min (set (lapTimes s))"
    from inv nz' False have b: "bestLapTime s = Some ?m" by simp
    have "?m \<in> set (lapTimes s)" using False by (intro Min_in) simp_all
    with nz' have "?m \<noteq> 0" by metis
    then have t: "truthy (bestLapTime s)" "to_number (bestLapTime s) = ?m"
      by (simp_all add: b truthy_def to_number_def)
    have "Min (set (lapTimes s @ [?lt])) = min ?lt ?m"
      using False by (simp add: Min_insert)
    then show ?thesis unfolding best times using t b by (simp add: min_def)
  qed
qed

lemma completeLap_finish_events:
  "filter is_race_finish (snd (completeLap clk s)) =
     (if totalLaps s \<le> lapCount s + 1 \<and> onRaceFinish s
      then [OnRaceFinish (now_finish clk - to_number (raceStartTime (fst (completeLap clk s))))
              (bestLapTime (fst (completeLap clk s)))]
      else [])"
  by (simp add: completeLap_events completeLap_state)

lemma session_inv_lap:
  assumes "session_inv s evs" "lapCount s < totalLaps s"
  shows "session_inv (fst (completeLap clk s)) (evs @ snd (completeLap clk s))"
proof -
  let ?s' = "fst (completeLap clk s)"
  from assms have t: "totalLaps s = 3" and f: "onRaceFinish s" and c: "length (filter is_race_finish evs) = 0"
    and b: "0 \<notin> set (lapTimes s) \<longrightarrow>
        bestLapTime s = (if lapTimes s = [] then None else Some (Min (set (lapTimes s))))"
    by (auto simp: session_inv_def)
  have 1: "totalLaps ?s' = 3" "onRaceFinish ?s'" "lapCount ?s' = lapCount s + 1"
    using t f by (simp_all add: completeLap_state)
  have 2: "lapTimes ?s' \<noteq> []" by (simp add: completeLap_state)
  have 3: "length (filter is_race_finish (evs @ snd (completeLap clk s))) =
       (if lapCount ?s' = totalLaps ?s' then 1 else 0)"
    using c assms(2) t f 1 by (auto simp: completeLap_finish_events)
  have 4: "0 \<notin> set (lapTimes ?s') \<longrightarrow>
        bestLapTime ?s' = (if lapTimes ?s' = [] then None else Some (Min (set (lapTimes ?s'))))"
    using best_after_lap[OF b] 2 by simp
  show ?thesis unfolding session_inv_def using 1 3 4 assms(2) t by simp
qed

lemma session_inv_same:
  assumes "session_inv s evs" "totalLaps s' = totalLaps s" "onRaceFinish s' = onRaceFinish s"
    "lapCount s' = lapCount s" "lapTimes s' = lapTimes s" "bestLapTime s' = bestLapTime s"
    "filter is_race_finish ev = []"
  shows "session_inv s' (evs @ ev)"
  using assms by (simp add: session_inv_def)

lemma session_inv_step:
  assumes inv: "session_inv s evs" and g: "game_action a" and p: "perform a s = Inr (s', ev)"
  shows "session_inv s' (if a = Reset then [] else evs @ ev)"
proof (cases a)
  case StartCountdown
  then have e: "s' = startCountdown s" "ev = []" using p by auto
  have "session_inv s' (evs @ ev)"
    by (rule session_inv_same[OF inv]) (simp_all add: e startCountdown_def)
  then show ?thesis using StartCountdown by simp
next
  case (Timer k now)
  then have e: "s' = fst (runTimer k now s)" "ev = snd (runTimer k now s)" using p by auto
  have "session_inv s' (evs @ ev)"
    by (rule session_inv_same[OF inv]) (simp_all add: e runTimer_fields)
  then show ?thesis using Timer by simp
next
  case (Update carPosition clk)
  then have "CheckpointSystem_update carPosition clk s = Inr (s', ev)" using p by simp
  then have "session_inv s' (evs @ ev)"
  proof (cases rule: update_cases)
    case idle
    then show ?thesis using inv by simp
  next
    case miss
    show ?thesis
      by (rule session_inv_same[OF inv]) (simp_all add: miss started_simps)
  next
    case next_checkpoint
    show ?thesis
      by (rule session_inv_same[OF inv]) (simp_all add: next_checkpoint advance_simps)
  next
    case lap
    have i: "session_inv (advance clk s) (evs @ [])"
      by (rule session_inv_same[OF inv]) (simp_all add: advance_simps)
    have "lapCount (advance clk s) < totalLaps (advance clk s)"
      using lap(2) by (simp add: advance_simps)
    from session_inv_lap[OF i[simplified] this, of clk] lap(4) show ?thesis by simp
  qed
  then show ?thesis using Update by simp
next
  case (HitCheckpoint index clk)
  then show ?thesis using g by simp
next
  case Reset
  then have "s' = reset s" using p by auto
  then show ?thesis using Reset inv by (simp add: session_inv_def reset_def)
qed

lemma session_invariant:
  "session (CheckpointSystem trackDefinition onLap True) s evs \<Longrightarrow> session_inv s evs"
proof (induction rule: session.induct)
  case session_init
  show ?case by (simp add: session_inv_def CheckpointSystem_def)
next
  case (session_step s evs a s' ev)
  then show ?case using session_inv_step by blast
qed

lemma session_run:
  "session c0 s evs \<Longrightarrow> list_all game_action acts \<Longrightarrow> Reset \<notin> set acts \<Longrightarrow>
     run acts s = Inr (s', ev) \<Longrightarrow> session c0 s' (evs @ ev)"
proof (induction acts arbitrary: s evs ev)
  case Nil
  then show ?case by simp
next
  case (Cons a acts)
  from Cons.prems(4) obtain s1 ev1 ev2 where p: "perform a s = Inr (s1, ev1)"
    and r: "run acts s1 = Inr (s', ev2)" and e: "ev = ev1 @ ev2"
    by (auto split: sum.splits prod.splits)
  have "game_action a" "a \<noteq> Reset" using Cons.prems(2,3) by auto
  with session_step[OF Cons.prems(1) this(1) p] have "session c0 s1 (evs @ ev1)" by simp
  from Cons.IH[OF this _ _ r] Cons.prems(2,3) show ?case by (simp add: e)
qed

lemma oval_race_prefix:
  "run [StartCountdown,
        Timer 0 500,
        Timer 0 1500,
        Timer 0 2500,
        Timer 0 3500,
        Update \<lparr>vec_x = 35, vec_y = 0.5, vec_z = 0\<rparr> \<lparr>now_update = 4000, now_lap = 4000, now_finish = 4000\<rparr>,
        Timer 0 4200,
        Update \<lparr>vec_x = 0, vec_y = 0.5, vec_z = 35\<rparr> \<lparr>now_update = 6000, now_lap = 6000, now_finish = 6000\<rparr>,
        Timer 0 6200,
        Update \<lparr>vec_x = - 35, vec_y = 0.5, vec_z = 0\<rparr> \<lparr>now_update = 8000, now_lap = 8000, now_finish = 8000\<rparr>,
        Timer 0 8200,
        Update \<lparr>vec_x = 0, vec_y = 0.5, vec_z = - 35\<rparr> \<lparr>now_update = 10000, now_lap = 10000, now_finish = 10000\<rparr>,
        Timer 0 10200,
        Update \<lparr>vec_x = 35, vec_y = 0.5, vec_z = 0\<rparr> \<lparr>now_update = 11000, now_lap = 11000, now_finish = 11000\<rparr>,
        Timer 0 11200,
        Update \<lparr>vec_x = 0, vec_y = 0.5, vec_z = 35\<rparr> \<lparr>now_update = 12000, now_lap = 12000, now_finish = 12000\<rparr>,
        Timer 0 12200,
        Update \<lparr>vec_x = - 35, vec_y = 0.5, vec_z = 0\<rparr> \<lparr>now_update = 14000, now_lap = 14000, now_finish = 14000\<rparr>,
        Timer 0 14200,
        Update \<lparr>vec_x = 0, vec_y = 0.5, vec_z = - 35\<rparr> \<lparr>now_update = 16000, now_lap = 16000, now_finish = 16000\<rparr>,
        Timer 0 16200,
        Update \<lparr>vec_x = 35, vec_y = 0.5, vec_z = 0\<rparr> \<lparr>now_update = 17000, now_lap = 17000, now_finish = 17000\<rparr>,
        Timer 0 17200,
        Update \<lparr>vec_x = 0, vec_y = 0.5, vec_z = 35\<rparr> \<lparr>now_update = 19000, now_lap = 19000, now_finish = 19000\<rparr>,
        Timer 0 19200,
        Update \<lparr>vec_x = - 35, vec_y = 0.5, vec_z = 0\<rparr> \<lparr>now_update = 21000, now_lap = 21000, now_finish = 21000\<rparr>,
        Timer 0 21200]
      (CheckpointSystem \<lparr>def_innerRadius = 25, def_outerRadius = 45\<rparr> True True)
   = Inr (\<lparr>checkpoints =
              [\<lparr>cp_index = 0, cp_position = \<lparr>vec_x = 35, vec_y = 0, vec_z = 0\<rparr>, cp_radius = 12, cp_angle = 0, cp_mesh_alpha = 0.4\<rparr>,
               \<lparr>cp_index = 1, cp_position = \<lparr>vec_x = 0, vec_y = 0, vec_z = 35\<rparr>, cp_radius = 12, cp_angle = pi / 2, cp_mesh_alpha = 0.4\<rparr>,
               \<lparr>cp_index = 2, cp_position = \<lparr>vec_x = - 35, vec_y = 0, vec_z = 0\<rparr>, cp_radius = 12, cp_angle = pi, cp_mesh_alpha = 0.4\<rparr>,
               \<lparr>cp_index = 3, cp_position = \<lparr>vec_x = 0, vec_y = 0, vec_z = - 35\<rparr>, cp_radius = 12, cp_angle = pi * 1.5, cp_mesh_alpha = 0.4\<rparr>],
            currentCheckpoint = 3, lapCount = 2, totalLaps = 3, raceStartTime = Some 3500,
            lapTimes = [6500, 6000], lastLapTime = Some 16000, bestLapTime = Some 6000,
            raceState = Racing, countdownValue = 0, onLapComplete = True, onRaceFinish = True,
            pending = []\<rparr>,
          [OnTick 3, OnTick 2, OnTick 1, OnGo, OnLapComplete 1 6500, OnLapComplete 2 6000])"
  by (simp add: CheckpointSystem_update_def hitCheckpoint_def CheckpointSystem_def
      createCheckpoints_oval Let_def completeLap_def finishRace_def truthy_def to_number_def
      startCountdown_def runTimer_def tick_def vec_distance_def)

lemma oval_race_last:
  "\<exists>s' ev. CheckpointSystem_update \<lparr>vec_x = 0, vec_y = 0.5, vec_z = - 35\<rparr> \<lparr>now_update = 23000, now_lap = 23000, now_finish = 23001\<rparr>
      \<lparr>checkpoints =
              [\<lparr>cp_index = 0, cp_position = \<lparr>vec_x = 35, vec_y = 0, vec_z = 0\<rparr>, cp_radius = 12, cp_angle = 0, cp_mesh_alpha = 0.4\<rparr>,
               \<lparr>cp_index = 1, cp_position = \<lparr>vec_x = 0, vec_y = 0, vec_z = 35\<rparr>, cp_radius = 12, cp_angle = pi / 2, cp_mesh_alpha = 0.4\<rparr>,
               \<lparr>cp_index = 2, cp_position = \<lparr>vec_x = - 35, vec_y = 0, vec_z = 0\<rparr>, cp_radius = 12, cp_angle = pi, cp_mesh_alpha = 0.4\<rparr>,
               \<lparr>cp_index = 3, cp_position = \<lparr>vec_x = 0, vec_y = 0, vec_z = - 35\<rparr>, cp_radius = 12, cp_angle = pi * 1.5, cp_mesh_alpha = 0.4\<rparr>],
            currentCheckpoint = 3, lapCount = 2, totalLaps = 3, raceStartTime = Some 3500,
            lapTimes = [6500, 6000], lastLapTime = Some 16000, bestLapTime = Some 6000,
            raceState = Racing, countdownValue = 0, onLapComplete = True, onRaceFinish = True,
            pending = []\<rparr> = Inr (s', ev) \<and>
     lapCount s' = 3 \<and> totalLaps s' = 3 \<and> lapTimes s' = [6500, 6000, 7000] \<and>
     raceStartTime s' = Some 3500"
  by (simp add: CheckpointSystem_update_def hitCheckpoint_def CheckpointSystem_def
      createCheckpoints_oval Let_def completeLap_def finishRace_def truthy_def to_number_def
      startCountdown_def runTimer_def tick_def vec_distance_def)

text \<open>
  Claim C4. In every race session driven as \<open>Game\<close> drives it (from a tracker built with
  an \<open>onRaceFinish\<close> callback), \<open>lapCount\<close> never exceeds \<open>totalLaps\<close>, and the session
  has notified \<open>onRaceFinish\<close> exactly once if \<open>lapCount\<close> has reached \<open>totalLaps\<close> and not
  at all before. The \<open>update\<close> call in which \<open>lapCount\<close> reaches \<open>totalLaps\<close> leaves the
  state Finished and issues that one notification, with
  \<open>totalTime = now - raceStartTime\<close> (\<open>now\<close> being the clock read by \<open>finishRace\<close>) and with
  the \<open>bestLapTime\<close> field, which is the minimum of the recorded \<open>lapTimes\<close> provided no
  recorded lap lasted exactly 0 ms (the code takes a best time of 0 for unset; a lap
  takes the vehicle around the whole track, so its duration is positive).
\<close>

theorem race_completion:
  assumes "session (CheckpointSystem trackDefinition onLap True) s evs"
  shows "lapCount s \<le> totalLaps s \<and>
         length (filter is_race_finish evs) = (if lapCount s = totalLaps s then 1 else 0) \<and>
         (\<forall>carPosition clk s' ev.
            CheckpointSystem_update carPosition clk s = Inr (s', ev) \<and>
            lapCount s < totalLaps s \<and> lapCount s' = totalLaps s' \<longrightarrow>
              raceState s' = Finished \<and>
              filter is_race_finish evs = [] \<and>
              filter is_race_finish ev =
                [OnRaceFinish (now_finish clk - to_number (raceStartTime s')) (bestLapTime s')] \<and>
              (0 \<notin> set (lapTimes s') \<longrightarrow> bestLapTime s' = Some (Min (set (lapTimes s')))))"
proof -
  note inv = session_invariant[OF assms]
  have step: "raceState s' = Finished \<and>
              filter is_race_finish evs = [] \<and>
              filter is_race_finish ev =
                [OnRaceFinish (now_finish clk - to_number (raceStartTime s')) (bestLapTime s')] \<and>
              (0 \<notin> set (lapTimes s') \<longrightarrow> bestLapTime s' = Some (Min (set (lapTimes s'))))"
    if u: "CheckpointSystem_update carPosition clk s = Inr (s', ev)"
      and before: "lapCount s < totalLaps s" and reach: "lapCount s' = totalLaps s'"
    for carPosition clk s' ev
    using u
  proof (cases rule: update_cases)
    case idle
    then show ?thesis using before reach by simp
  next
    case miss
    then show ?thesis using before reach by (simp add: started_simps)
  next
    case next_checkpoint
    then show ?thesis using before reach by (simp add: advance_simps)
  next
    case lap
    let ?m = "advance clk s"
    have s': "s' = fst (completeLap clk ?m)" and ev: "ev = snd (completeLap clk ?m)"
      using lap(4) by simp_all
    have mi: "session_inv ?m (evs @ [])"
      by (rule session_inv_same[OF inv]) (simp_all add: advance_simps)
    then have b: "0 \<notin> set (lapTimes ?m) \<longrightarrow>
        bestLapTime ?m = (if lapTimes ?m = [] then None else Some (Min (set (lapTimes ?m))))"
      by (simp add: session_inv_def)
    have "lapCount s' = lapCount s + 1" "totalLaps s' = totalLaps s"
      unfolding s' by (simp_all add: completeLap_state advance_simps)
    with reach have full: "totalLaps ?m \<le> lapCount ?m + 1" by (simp add: advance_simps)
    have f: "onRaceFinish ?m" using inv by (simp add: session_inv_def advance_simps)
    have 1: "raceState s' = Finished" unfolding s' using full by (simp add: completeLap_state)
    have 2: "filter is_race_finish evs = []" using inv before by (simp add: session_inv_def)
    have 3: "filter is_race_finish ev =
                [OnRaceFinish (now_finish clk - to_number (raceStartTime s')) (bestLapTime s')]"
      unfolding ev using full f by (simp add: completeLap_finish_events s')
    have 4: "0 \<notin> set (lapTimes s') \<longrightarrow> bestLapTime s' = Some (Min (set (lapTimes s')))"
      unfolding s' using best_after_lap[OF b] by blast
    from 1 2 3 4 show ?thesis by blast
  qed
  from inv have "lapCount s \<le> totalLaps s"
    "length (filter is_race_finish evs) = (if lapCount s = totalLaps s then 1 else 0)"
    by (simp_all add: session_inv_def)
  with step show ?thesis by blast
qed

theorem race_completion_witness:
  "(case run [StartCountdown,
        Timer 0 500,
        Timer 0 1500,
        Timer 0 2500,
        Timer 0 3500,
        Update \<lparr>vec_x = 35, vec_y = 0.5, vec_z = 0\<rparr> \<lparr>now_update = 4000, now_lap = 4000, now_finish = 4000\<rparr>,
        Timer 0 4200,
        Update \<lparr>vec_x = 0, vec_y = 0.5, vec_z = 35\<rparr> \<lparr>now_update = 6000, now_lap = 6000, now_finish = 6000\<rparr>,
        Timer 0 6200,
        Update \<lparr>vec_x = - 35, vec_y = 0.5, vec_z = 0\<rparr> \<lparr>now_update = 8000, now_lap = 8000, now_finish = 8000\<rparr>,
        Timer 0 8200,
        Update \<lparr>vec_x = 0, vec_y = 0.5, vec_z = - 35\<rparr> \<lparr>now_update = 10000, now_lap = 10000, now_finish = 10000\<rparr>,
        Timer 0 10200,
        Update \<lparr>vec_x = 35, vec_y = 0.5, vec_z = 0\<rparr> \<lparr>now_update = 11000, now_lap = 11000, now_finish = 11000\<rparr>,
        Timer 0 11200,
        Update \<lparr>vec_x = 0, vec_y = 0.5, vec_z = 35\<rparr> \<lparr>now_update = 12000, now_lap = 12000, now_finish = 12000\<rparr>,
        Timer 0 12200,
        Update \<lparr>vec_x = - 35, vec_y = 0.5, vec_z = 0\<rparr> \<lparr>now_update = 14000, now_lap = 14000, now_finish = 14000\<rparr>,
        Timer 0 14200,
        Update \<lparr>vec_x = 0, vec_y = 0.5, vec_z = - 35\<rparr> \<lparr>now_update = 16000, now_lap = 16000, now_finish = 16000\<rparr>,
        Timer 0 16200,
        Update \<lparr>vec_x = 35, vec_y = 0.5, vec_z = 0\<rparr> \<lparr>now_update = 17000, now_lap = 17000, now_finish = 17000\<rparr>,
        Timer 0 17200,
        Update \<lparr>vec_x = 0, vec_y = 0.5, vec_z = 35\<rparr> \<lparr>now_update = 19000, now_lap = 19000, now_finish = 19000\<rparr>,
        Timer 0 19200,
        Update \<lparr>vec_x = - 35, vec_y = 0.5, vec_z = 0\<rparr> \<lparr>now_update = 21000, now_lap = 21000, now_finish = 21000\<rparr>,
        Timer 0 21200]
      (CheckpointSystem \<lparr>def_innerRadius = 25, def_outerRadius = 45\<rparr> True True) of
      Inl e \<Rightarrow> False
    | Inr (s, evs) \<Rightarrow>
        session (CheckpointSystem \<lparr>def_innerRadius = 25, def_outerRadius = 45\<rparr> True True) s evs \<and>
        lapCount s < totalLaps s \<and> filter is_race_finish evs = [] \<and>
        (case CheckpointSystem_update \<lparr>vec_x = 0, vec_y = 0.5, vec_z = - 35\<rparr> \<lparr>now_update = 23000, now_lap = 23000, now_finish = 23001\<rparr> s of
           Inl e \<Rightarrow> False
         | Inr (s', ev) \<Rightarrow>
             lapCount s' = totalLaps s' \<and> raceState s' = Finished \<and>
             lapTimes s' = [6500, 6000, 7000] \<and>
             filter is_race_finish ev = [OnRaceFinish 19501 (Some 6000)]))"
proof -
  let ?c = "(CheckpointSystem \<lparr>def_innerRadius = 25, def_outerRadius = 45\<rparr> True True)"
  let ?s = "\<lparr>checkpoints =
              [\<lparr>cp_index = 0, cp_position = \<lparr>vec_x = 35, vec_y = 0, vec_z = 0\<rparr>, cp_radius = 12, cp_angle = 0, cp_mesh_alpha = 0.4\<rparr>,
               \<lparr>cp_index = 1, cp_position = \<lparr>vec_x = 0, vec_y = 0, vec_z = 35\<rparr>, cp_radius = 12, cp_angle = pi / 2, cp_mesh_alpha = 0.4\<rparr>,
               \<lparr>cp_index = 2, cp_position = \<lparr>vec_x = - 35, vec_y = 0, vec_z = 0\<rparr>, cp_radius = 12, cp_angle = pi, cp_mesh_alpha = 0.4\<rparr>,
               \<lparr>cp_index = 3, cp_position = \<lparr>vec_x = 0, vec_y = 0, vec_z = - 35\<rparr>, cp_radius = 12, cp_angle = pi * 1.5, cp_mesh_alpha = 0.4\<rparr>],
            currentCheckpoint = 3, lapCount = 2, totalLaps = 3, raceStartTime = Some 3500,
            lapTimes = [6500, 6000], lastLapTime = Some 16000, bestLapTime = Some 6000,
            raceState = Racing, countdownValue = 0, onLapComplete = True, onRaceFinish = True,
            pending = []\<rparr>"
  let ?evs = "[OnTick 3, OnTick 2, OnTick 1, OnGo, OnLapComplete 1 6500, OnLapComplete 2 6000]"
  let ?acts = "[StartCountdown,
        Timer 0 500,
        Timer 0 1500,
        Timer 0 2500,
        Timer 0 3500,
        Update \<lparr>vec_x = 35, vec_y = 0.5, vec_z = 0\<rparr> \<lparr>now_update = 4000, now_lap = 4000, now_finish = 4000\<rparr>,
        Timer 0 4200,
        Update \<lparr>vec_x = 0, vec_y = 0.5, vec_z = 35\<rparr> \<lparr>now_update = 6000, now_lap = 6000, now_finish = 6000\<rparr>,
        Timer 0 6200,
        Update \<lparr>vec_x = - 35, vec_y = 0.5, vec_z = 0\<rparr> \<lparr>now_update = 8000, now_lap = 8000, now_finish = 8000\<rparr>,
        Timer 0 8200,
        Update \<lparr>vec_x = 0, vec_y = 0.5, vec_z = - 35\<rparr> \<lparr>now_update = 10000, now_lap = 10000, now_finish = 10000\<rparr>,
        Timer 0 10200,
        Update \<lparr>vec_x = 35, vec_y = 0.5, vec_z = 0\<rparr> \<lparr>now_update = 11000, now_lap = 11000, now_finish = 11000\<rparr>,
        Timer 0 11200,
        Update \<lparr>vec_x = 0, vec_y = 0.5, vec_z = 35\<rparr> \<lparr>now_update = 12000, now_lap = 12000, now_finish = 12000\<rparr>,
        Timer 0 12200,
        Update \<lparr>vec_x = - 35, vec_y = 0.5, vec_z = 0\<rparr> \<lparr>now_update = 14000, now_lap = 14000, now_finish = 14000\<rparr>,
        Timer 0 14200,
        Update \<lparr>vec_x = 0, vec_y = 0.5, vec_z = - 35\<rparr> \<lparr>now_update = 16000, now_lap = 16000, now_finish = 16000\<rparr>,
        Timer 0 16200,
        Update \<lparr>vec_x = 35, vec_y = 0.5, vec_z = 0\<rparr> \<lparr>now_update = 17000, now_lap = 17000, now_finish = 17000\<rparr>,
        Timer 0 17200,
        Update \<lparr>vec_x = 0, vec_y = 0.5, vec_z = 35\<rparr> \<lparr>now_update = 19000, now_lap = 19000, now_finish = 19000\<rparr>,
        Timer 0 19200,
        Update \<lparr>vec_x = - 35, vec_y = 0.5, vec_z = 0\<rparr> \<lparr>now_update = 21000, now_lap = 21000, now_finish = 21000\<rparr>,
        Timer 0 21200]"
  have r: "run ?acts ?c = Inr (?s, ?evs)" by (rule oval_race_prefix)
  have "session ?c ?s ([] @ ?evs)"
    by (rule session_run[OF session_init _ _ r]) simp_all
  then have sess: "session ?c ?s ?evs" by simp
  from oval_race_last obtain s' ev where
    u: "CheckpointSystem_update \<lparr>vec_x = 0, vec_y = 0.5, vec_z = - 35\<rparr> \<lparr>now_update = 23000, now_lap = 23000, now_finish = 23001\<rparr> ?s = Inr (s', ev)"
    and f: "lapCount s' = 3" "totalLaps s' = 3" "lapTimes s' = [6500, 6000, 7000]"
      "raceStartTime s' = Some 3500"
    by blast
  have reach: "lapCount ?s < totalLaps ?s" "lapCount s' = totalLaps s'" by (simp_all add: f)
  from race_completion[OF sess] u reach
  have "raceState s' = Finished \<and> filter is_race_finish ?evs = [] \<and>
        filter is_race_finish ev = [OnRaceFinish (23001 - to_number (raceStartTime s')) (bestLapTime s')] \<and>
        (0 \<notin> set (lapTimes s') \<longrightarrow> bestLapTime s' = Some (Min (set (lapTimes s'))))"
    by fastforce
  then have "raceState s' = Finished \<and> filter is_race_finish ev = [OnRaceFinish 19501 (Some 6000)]"
    by (simp add: f to_number_def)
  with sess reach f show ?thesis unfolding r sum.case prod.case u by simp
qed


subsection \<open>\<open>reset\<close>\<close>

lemma completeLap_frame:
  "checkpoints (fst (completeLap clk s)) = checkpoints s"
  "totalLaps (fst (completeLap clk s)) = totalLaps s"
  "onLapComplete (fst (completeLap clk s)) = onLapComplete s"
  "onRaceFinish (fst (completeLap clk s)) = onRaceFinish s"
  "pending (fst (completeLap clk s)) = pending s"
  by (simp_all add: completeLap_state)

lemma perform_frame:
  assumes "perform a s = Inr (s', ev)"
  shows "map geometry (checkpoints s') = map geometry (checkpoints s) \<and>
         totalLaps s' = totalLaps s \<and> onLapComplete s' = onLapComplete s \<and>
         onRaceFinish s' = onRaceFinish s"
proof (cases a)
  case StartCountdown
  then show ?thesis using assms by (auto simp: startCountdown_def)
next
  case (Timer k now)
  then have "s' = fst (runTimer k now s)" using assms by auto
  then show ?thesis by (simp add: runTimer_fields runTimer_geometry)
next
  case (Update p clk)
  then have "CheckpointSystem_update p clk s = Inr (s', ev)" using assms by simp
  then show ?thesis
  proof (cases rule: update_cases)
    case lap
    then have "s' = fst (completeLap clk (advance clk s))" by simp
    then show ?thesis by (simp add: completeLap_frame advance_simps)
  qed (simp_all add: advance_simps started_simps)
next
  case (HitCheckpoint index clk)
  then have "hitCheckpoint index clk s = Inr (s', ev)" using assms by simp
  then show ?thesis
  proof (cases rule: hitCheckpoint_cases)
    case lap
    then have "s' = fst (completeLap clk (flashed s))" by simp
    then show ?thesis by (simp add: completeLap_frame flashed_simps flashed_geometry)
  qed (simp_all add: flashed_simps flashed_geometry)
next
  case Reset
  then show ?thesis using assms by (auto simp: reset_def)
qed

lemma reachable_frame:
  "reachable c0 s \<Longrightarrow>
     map geometry (checkpoints s) = map geometry (checkpoints c0) \<and>
     totalLaps s = totalLaps c0 \<and> onLapComplete s = onLapComplete c0 \<and>
     onRaceFinish s = onRaceFinish c0"
proof (induction rule: reachable.induct)
  case reachable_init
  show ?case by simp
next
  case (reachable_step s a s' ev)
  from perform_frame[OF reachable_step.hyps(2)] reachable_step.IH show ?case by simp
qed

lemma checkpoints_eqI:
  assumes g: "map geometry xs = map geometry ys" and a: "map cp_mesh_alpha xs = map cp_mesh_alpha ys"
  shows "xs = ys"
proof (rule nth_equalityI)
  show len: "length xs = length ys" using g by (rule map_eq_imp_length_eq)
  fix i assume i: "i < length xs"
  then have "geometry (xs ! i) = geometry (ys ! i)" by (rule nth_geometry[OF g])
  moreover have "cp_mesh_alpha (xs ! i) = cp_mesh_alpha (ys ! i)"
    using a i len by (metis nth_map)
  ultimately show "xs ! i = ys ! i" by (simp add: geometry_def checkpoint.equality)
qed

lemma oval_first_checkpoint:
  "\<exists>s ev. run [StartCountdown, Timer 0 500, Timer 0 1500, Timer 0 2500, Timer 0 3500,
        Update \<lparr>vec_x = 35, vec_y = 0.5, vec_z = 0\<rparr> \<lparr>now_update = 4000, now_lap = 4000, now_finish = 4000\<rparr>, Timer 0 4200]
      (CheckpointSystem \<lparr>def_innerRadius = 25, def_outerRadius = 45\<rparr> True True) = Inr (s, ev) \<and>
     pending s = [] \<and> map cp_mesh_alpha (checkpoints s) = [0.4, 0.4, 0.4, 0.4] \<and>
     raceState s = Racing \<and> currentCheckpoint s = 1 \<and> raceStartTime s = Some 3500"
  by (simp add: CheckpointSystem_update_def hitCheckpoint_def CheckpointSystem_def
      createCheckpoints_oval Let_def completeLap_def finishRace_def truthy_def to_number_def
      startCountdown_def runTimer_def tick_def vec_distance_def reset_def)

text \<open>
  Claim C6, amended. In any state, \<open>reset\<close> gives \<open>currentCheckpoint\<close>, \<open>lapCount\<close>,
  \<open>raceStartTime\<close>, \<open>lapTimes\<close>, \<open>lastLapTime\<close>, \<open>bestLapTime\<close>, \<open>raceState\<close> (Waiting) and
  \<open>countdownValue\<close> (3) their construction-time values and leaves the checkpoints, the
  lap total, the callbacks and the pending timer callbacks as they are. When the state
  was reached from construction, no callback scheduled earlier is still pending and the
  checkpoint meshes have their construction-time alpha, \<open>startCountdown\<close> after \<open>reset\<close>
  gives the very state that \<open>startCountdown\<close> gives on the freshly constructed tracker, so
  all that follows is as in the first race. \<open>reset\<close> cancels no timer: with a countdown
  callback still pending the two differ, as the counterexample shows.
\<close>

theorem reset_restores:
  "(let c = CheckpointSystem trackDefinition onLap onFinish; r = reset s
    in currentCheckpoint r = currentCheckpoint c \<and> lapCount r = lapCount c \<and>
       raceStartTime r = raceStartTime c \<and> lapTimes r = lapTimes c \<and>
       lastLapTime r = lastLapTime c \<and> bestLapTime r = bestLapTime c \<and>
       raceState r = raceState c \<and> raceState r = Waiting \<and>
       countdownValue r = countdownValue c \<and> countdownValue r = 3 \<and>
       checkpoints r = checkpoints s \<and> totalLaps r = totalLaps s \<and> pending r = pending s \<and>
       onLapComplete r = onLapComplete s \<and> onRaceFinish r = onRaceFinish s)
   \<and> (reachable (CheckpointSystem trackDefinition onLap onFinish) s \<and> pending s = [] \<and>
        map cp_mesh_alpha (checkpoints s) = map cp_mesh_alpha (createCheckpoints trackDefinition)
        \<longrightarrow> startCountdown (reset s) = startCountdown (CheckpointSystem trackDefinition onLap onFinish))"
proof -
  let ?c = "CheckpointSystem trackDefinition onLap onFinish"
  have fields: "currentCheckpoint (reset s) = currentCheckpoint ?c \<and> lapCount (reset s) = lapCount ?c \<and>
       raceStartTime (reset s) = raceStartTime ?c \<and> lapTimes (reset s) = lapTimes ?c \<and>
       lastLapTime (reset s) = lastLapTime ?c \<and> bestLapTime (reset s) = bestLapTime ?c \<and>
       raceState (reset s) = raceState ?c \<and> raceState (reset s) = Waiting \<and>
       countdownValue (reset s) = countdownValue ?c \<and> countdownValue (reset s) = 3 \<and>
       checkpoints (reset s) = checkpoints s \<and> totalLaps (reset s) = totalLaps s \<and>
       pending (reset s) = pending s \<and>
       onLapComplete (reset s) = onLapComplete s \<and> onRaceFinish (reset s) = onRaceFinish s"
    by (simp add: reset_def CheckpointSystem_def)
  have again: "startCountdown (reset s) = startCountdown ?c"
    if r: "reachable ?c s" and p: "pending s = []"
      and a: "map cp_mesh_alpha (checkpoints s) = map cp_mesh_alpha (createCheckpoints trackDefinition)"
  proof -
    from reachable_frame[OF r] have g: "map geometry (checkpoints s) = map geometry (checkpoints ?c)"
      and f: "totalLaps s = totalLaps ?c" "onLapComplete s = onLapComplete ?c"
        "onRaceFinish s = onRaceFinish ?c"
      by simp_all
    have "checkpoints s = checkpoints ?c"
      using g a by (intro checkpoints_eqI) (simp_all add: CheckpointSystem_def)
    then have "reset s = ?c" using f p
      by (intro checkpoint_system.equality) (simp_all add: reset_def CheckpointSystem_def)
    then show ?thesis by simp
  qed
  from fields again show ?thesis unfolding Let_def by blast
qed

theorem reset_restores_witness:
  "(case run [StartCountdown, Timer 0 500, Timer 0 1500, Timer 0 2500, Timer 0 3500,
        Update \<lparr>vec_x = 35, vec_y = 0.5, vec_z = 0\<rparr> \<lparr>now_update = 4000, now_lap = 4000, now_finish = 4000\<rparr>, Timer 0 4200]
      (CheckpointSystem \<lparr>def_innerRadius = 25, def_outerRadius = 45\<rparr> True True) of
      Inl e \<Rightarrow> False
    | Inr (s, ev) \<Rightarrow>
        reachable (CheckpointSystem \<lparr>def_innerRadius = 25, def_outerRadius = 45\<rparr> True True) s \<and>
        pending s = [] \<and>
        map cp_mesh_alpha (checkpoints s) = map cp_mesh_alpha (createCheckpoints \<lparr>def_innerRadius = 25, def_outerRadius = 45\<rparr>) \<and>
        raceState s = Racing \<and> currentCheckpoint s = 1 \<and> raceStartTime s = Some 3500 \<and>
        raceState (reset s) = Waiting \<and> currentCheckpoint (reset s) = 0 \<and>
        raceStartTime (reset s) = None \<and>
        startCountdown (reset s) = startCountdown (CheckpointSystem \<lparr>def_innerRadius = 25, def_outerRadius = 45\<rparr> True True))"
proof -
  let ?c = "(CheckpointSystem \<lparr>def_innerRadius = 25, def_outerRadius = 45\<rparr> True True)"
  from oval_first_checkpoint obtain s ev where
    r: "run [StartCountdown, Timer 0 500, Timer 0 1500, Timer 0 2500, Timer 0 3500,
        Update \<lparr>vec_x = 35, vec_y = 0.5, vec_z = 0\<rparr> \<lparr>now_update = 4000, now_lap = 4000, now_finish = 4000\<rparr>, Timer 0 4200] ?c = Inr (s, ev)"
    and f: "pending s = []" "map cp_mesh_alpha (checkpoints s) = [0.4, 0.4, 0.4, 0.4]"
      "raceState s = Racing" "currentCheckpoint s = 1" "raceStartTime s = Some 3500"
    by auto
  have reach: "reachable ?c s" using reachable_run[OF reachable_init r] .
  have a: "map cp_mesh_alpha (checkpoints s) = map cp_mesh_alpha (createCheckpoints \<lparr>def_innerRadius = 25, def_outerRadius = 45\<rparr>)"
    by (simp add: f createCheckpoints_oval)
  from reset_restores[of "\<lparr>def_innerRadius = 25, def_outerRadius = 45\<rparr>" True True s] reach f(1) a
  have "raceState (reset s) = Waiting \<and> currentCheckpoint (reset s) = 0 \<and>
        raceStartTime (reset s) = None \<and> startCountdown (reset s) = startCountdown ?c"
    by (simp add: Let_def CheckpointSystem_def)
  with reach f a show ?thesis unfolding r sum.case prod.case by simp
qed

text \<open>
  The claim as stated fails when \<open>reset\<close> comes during a countdown: the callback of the
  first countdown stays scheduled, the restarted countdown runs on two chains of callbacks
  at once, \<open>onGo\<close> is notified twice, and the second \<open>onGo\<close> overwrites \<open>raceStartTime\<close>.
\<close>

theorem reset_restores_counterexample:
  "reachable (CheckpointSystem \<lparr>def_innerRadius = 25, def_outerRadius = 45\<rparr> True True)
     (startCountdown (CheckpointSystem \<lparr>def_innerRadius = 25, def_outerRadius = 45\<rparr> True True)) \<and>
   startCountdown (reset (startCountdown (CheckpointSystem \<lparr>def_innerRadius = 25, def_outerRadius = 45\<rparr> True True)))
     \<noteq> startCountdown (CheckpointSystem \<lparr>def_innerRadius = 25, def_outerRadius = 45\<rparr> True True) \<and>
   map_sum id snd (run [Timer 0 500, Timer 0 600, Timer 0 1500, Timer 0 1600, Timer 0 2500]
      (startCountdown (CheckpointSystem \<lparr>def_innerRadius = 25, def_outerRadius = 45\<rparr> True True)))
     = Inr [OnTick 3, OnTick 2, OnTick 1, OnGo] \<and>
   map_sum id snd (run [Timer 0 500, Timer 0 600, Timer 0 1500, Timer 0 1600, Timer 0 2500]
      (startCountdown (reset (startCountdown (CheckpointSystem \<lparr>def_innerRadius = 25, def_outerRadius = 45\<rparr> True True)))))
     = Inr [OnTick 3, OnTick 2, OnTick 1, OnGo, OnGo] \<and>
   map_sum id (raceStartTime \<circ> fst) (run [Timer 0 500, Timer 0 600, Timer 0 1500, Timer 0 1600, Timer 0 2500]
      (startCountdown (CheckpointSystem \<lparr>def_innerRadius = 25, def_outerRadius = 45\<rparr> True True)))
     = Inr (Some 1600) \<and>
   map_sum id (raceStartTime \<circ> fst) (run [Timer 0 500, Timer 0 600, Timer 0 1500, Timer 0 1600, Timer 0 2500]
      (startCountdown (reset (startCountdown (CheckpointSystem \<lparr>def_innerRadius = 25, def_outerRadius = 45\<rparr> True True)))))
     = Inr (Some 2500)"
proof -
  let ?c = "(CheckpointSystem \<lparr>def_innerRadius = 25, def_outerRadius = 45\<rparr> True True)"
  have "perform StartCountdown ?c = Inr (startCountdown ?c, [])" by simp
  with reachable_init have 1: "reachable ?c (startCountdown ?c)" by (rule reachable_step)
  have "pending (startCountdown (reset (startCountdown ?c))) \<noteq> pending (startCountdown ?c)"
    by (simp add: startCountdown_def reset_def CheckpointSystem_def)
  then have 2: "startCountdown (reset (startCountdown ?c)) \<noteq> startCountdown ?c" by metis
  have 3: "map_sum id snd (run [Timer 0 500, Timer 0 600, Timer 0 1500, Timer 0 1600, Timer 0 2500] (startCountdown ?c)) = Inr [OnTick 3, OnTick 2, OnTick 1, OnGo]"
    "map_sum id snd (run [Timer 0 500, Timer 0 600, Timer 0 1500, Timer 0 1600, Timer 0 2500] (startCountdown (reset (startCountdown ?c))))
       = Inr [OnTick 3, OnTick 2, OnTick 1, OnGo, OnGo]"
    "map_sum id (raceStartTime \<circ> fst) (run [Timer 0 500, Timer 0 600, Timer 0 1500, Timer 0 1600, Timer 0 2500] (startCountdown ?c)) = Inr (Some 1600)"
    "map_sum id (raceStartTime \<circ> fst) (run [Timer 0 500, Timer 0 600, Timer 0 1500, Timer 0 1600, Timer 0 2500] (startCountdown (reset (startCountdown ?c))))
       = Inr (Some 2500)"
    by (simp_all add: CheckpointSystem_update_def hitCheckpoint_def CheckpointSystem_def
      createCheckpoints_oval Let_def completeLap_def finishRace_def truthy_def to_number_def
      startCountdown_def runTimer_def tick_def vec_distance_def reset_def)
  from 1 2 3 show ?thesis by blast
qed

subsection \<open>\<open>getTotalTime\<close>\<close>

lemma foldl_plus: "foldl (\<lambda>a b. a + b) a xs = a + sum_list xs" for a :: real
  by (induction xs arbitrary: a) simp_all

text \<open>
  Claim C9, amended. \<open>getTotalTime\<close> returns 0 whenever \<open>raceStartTime\<close> is unset (\<open>null\<close>
  or 0), in every race state. When \<open>raceStartTime\<close> is set, it returns the elapsed
  wall-clock time \<open>now - raceStartTime\<close> while Racing and the sum of the recorded
  \<open>lapTimes\<close> while Finished. The two computations are distinct and their results need
  not coincide: there is a Finished state in which the sum differs from
  \<open>now - raceStartTime\<close>.
\<close>

theorem getTotalTime_paths:
  "(raceStartTime s = None \<or> raceStartTime s = Some 0 \<longrightarrow> getTotalTime now s = 0) \<and>
   (raceStartTime s = Some t \<and> t \<noteq> 0 \<and> raceState s = Racing \<longrightarrow> getTotalTime now s = now - t) \<and>
   (raceStartTime s = Some t \<and> t \<noteq> 0 \<and> raceState s = Finished \<longrightarrow>
      getTotalTime now s = sum_list (lapTimes s)) \<and>
   (\<exists>s' t' now'. raceStartTime s' = Some t' \<and> t' \<noteq> 0 \<and> raceState s' = Finished \<and>
      getTotalTime now' s' \<noteq> now' - t')"
proof -
  have "getTotalTime 30000 ((CheckpointSystem \<lparr>def_innerRadius = 25, def_outerRadius = 45\<rparr> True True)\<lparr>raceState := Finished, raceStartTime := Some 3500, lapTimes := [6500, 6000, 7000]\<rparr>) \<noteq> 30000 - 3500"
    by (simp add: getTotalTime_def truthy_def)
  moreover have "raceStartTime ((CheckpointSystem \<lparr>def_innerRadius = 25, def_outerRadius = 45\<rparr> True True)\<lparr>raceState := Finished, raceStartTime := Some 3500, lapTimes := [6500, 6000, 7000]\<rparr>) = Some 3500" "raceState ((CheckpointSystem \<lparr>def_innerRadius = 25, def_outerRadius = 45\<rparr> True True)\<lparr>raceState := Finished, raceStartTime := Some 3500, lapTimes := [6500, 6000, 7000]\<rparr>) = Finished" by simp_all
  ultimately have "\<exists>s' t' now'. raceStartTime s' = Some t' \<and> t' \<noteq> 0 \<and> raceState s' = Finished \<and>
      getTotalTime now' s' \<noteq> now' - t'"
    by (intro exI[of _ "((CheckpointSystem \<lparr>def_innerRadius = 25, def_outerRadius = 45\<rparr> True True)\<lparr>raceState := Finished, raceStartTime := Some 3500, lapTimes := [6500, 6000, 7000]\<rparr>)"] exI[of _ 3500] exI[of _ 30000]) simp
  then show ?thesis
    by (auto simp: getTotalTime_def truthy_def to_number_def foldl_plus)
qed

theorem getTotalTime_paths_witness:
  "getTotalTime 5000 (CheckpointSystem \<lparr>def_innerRadius = 25, def_outerRadius = 45\<rparr> True True) = 0 \<and>
   getTotalTime 5000 ((CheckpointSystem \<lparr>def_innerRadius = 25, def_outerRadius = 45\<rparr> True True)\<lparr>raceState := Racing, raceStartTime := Some 3500\<rparr>) = 1500 \<and>
   getTotalTime 30000 ((CheckpointSystem \<lparr>def_innerRadius = 25, def_outerRadius = 45\<rparr> True True)\<lparr>raceState := Finished, raceStartTime := Some 3500, lapTimes := [6500, 6000, 7000]\<rparr>) = 19500"
  using getTotalTime_paths[where s = "(CheckpointSystem \<lparr>def_innerRadius = 25, def_outerRadius = 45\<rparr> True True)" and t = 3500 and now = 5000]
    getTotalTime_paths[where s = "((CheckpointSystem \<lparr>def_innerRadius = 25, def_outerRadius = 45\<rparr> True True)\<lparr>raceState := Racing, raceStartTime := Some 3500\<rparr>)" and t = 3500 and now = 5000]
    getTotalTime_paths[where s = "((CheckpointSystem \<lparr>def_innerRadius = 25, def_outerRadius = 45\<rparr> True True)\<lparr>raceState := Finished, raceStartTime := Some 3500, lapTimes := [6500, 6000, 7000]\<rparr>)" and t = 3500 and now = 30000]
  by (simp add: CheckpointSystem_def)

text \<open>
  The claim as stated fails where \<open>raceStartTime\<close> is unset: twelve calls of
  \<open>hitCheckpoint\<close> on a freshly constructed tracker finish the race without the timer
  ever being started, and \<open>getTotalTime\<close> then returns 0 and not the sum of the lap
  times.
\<close>

theorem getTotalTime_counterexample:
  "map_sum id (raceState \<circ> fst) (run [HitCheckpoint 0 \<lparr>now_update = 1000, now_lap = 1000, now_finish = 1000\<rparr>,
        HitCheckpoint 1 \<lparr>now_update = 1000, now_lap = 1000, now_finish = 1000\<rparr>,
        HitCheckpoint 2 \<lparr>now_update = 1000, now_lap = 1000, now_finish = 1000\<rparr>,
        HitCheckpoint 3 \<lparr>now_update = 1000, now_lap = 1000, now_finish = 1000\<rparr>,
        HitCheckpoint 0 \<lparr>now_update = 2000, now_lap = 2000, now_finish = 2000\<rparr>,
        HitCheckpoint 1 \<lparr>now_update = 2000, now_lap = 2000, now_finish = 2000\<rparr>,
        HitCheckpoint 2 \<lparr>now_update = 2000, now_lap = 2000, now_finish = 2000\<rparr>,
        HitCheckpoint 3 \<lparr>now_update = 2000, now_lap = 2000, now_finish = 2000\<rparr>,
        HitCheckpoint 0 \<lparr>now_update = 3000, now_lap = 3000, now_finish = 3000\<rparr>,
        HitCheckpoint 1 \<lparr>now_update = 3000, now_lap = 3000, now_finish = 3000\<rparr>,
        HitCheckpoint 2 \<lparr>now_update = 3000, now_lap = 3000, now_finish = 3000\<rparr>,
        HitCheckpoint 3 \<lparr>now_update = 3000, now_lap = 3000, now_finish = 3000\<rparr>]
      (CheckpointSystem \<lparr>def_innerRadius = 25, def_outerRadius = 45\<rparr> True True)) = Inr Finished \<and>
   map_sum id (lapTimes \<circ> fst) (run [HitCheckpoint 0 \<lparr>now_update = 1000, now_lap = 1000, now_finish = 1000\<rparr>,
        HitCheckpoint 1 \<lparr>now_update = 1000, now_lap = 1000, now_finish = 1000\<rparr>,
        HitCheckpoint 2 \<lparr>now_update = 1000, now_lap = 1000, now_finish = 1000\<rparr>,
        HitCheckpoint 3 \<lparr>now_update = 1000, now_lap = 1000, now_finish = 1000\<rparr>,
        HitCheckpoint 0 \<lparr>now_update = 2000, now_lap = 2000, now_finish = 2000\<rparr>,
        HitCheckpoint 1 \<lparr>now_update = 2000, now_lap = 2000, now_finish = 2000\<rparr>,
        HitCheckpoint 2 \<lparr>now_update = 2000, now_lap = 2000, now_finish = 2000\<rparr>,
        HitCheckpoint 3 \<lparr>now_update = 2000, now_lap = 2000, now_finish = 2000\<rparr>,
        HitCheckpoint 0 \<lparr>now_update = 3000, now_lap = 3000, now_finish = 3000\<rparr>,
        HitCheckpoint 1 \<lparr>now_update = 3000, now_lap = 3000, now_finish = 3000\<rparr>,
        HitCheckpoint 2 \<lparr>now_update = 3000, now_lap = 3000, now_finish = 3000\<rparr>,
        HitCheckpoint 3 \<lparr>now_update = 3000, now_lap = 3000, now_finish = 3000\<rparr>]
      (CheckpointSystem \<lparr>def_innerRadius = 25, def_outerRadius = 45\<rparr> True True)) = Inr [1000, 1000, 1000] \<and>
   map_sum id (getTotalTime 5000 \<circ> fst) (run [HitCheckpoint 0 \<lparr>now_update = 1000, now_lap = 1000, now_finish = 1000\<rparr>,
        HitCheckpoint 1 \<lparr>now_update = 1000, now_lap = 1000, now_finish = 1000\<rparr>,
        HitCheckpoint 2 \<lparr>now_update = 1000, now_lap = 1000, now_finish = 1000\<rparr>,
        HitCheckpoint 3 \<lparr>now_update = 1000, now_lap = 1000, now_finish = 1000\<rparr>,
        HitCheckpoint 0 \<lparr>now_update = 2000, now_lap = 2000, now_finish = 2000\<rparr>,
        HitCheckpoint 1 \<lparr>now_update = 2000, now_lap = 2000, now_finish = 2000\<rparr>,
        HitCheckpoint 2 \<lparr>now_update = 2000, now_lap = 2000, now_finish = 2000\<rparr>,
        HitCheckpoint 3 \<lparr>now_update = 2000, now_lap = 2000, now_finish = 2000\<rparr>,
        HitCheckpoint 0 \<lparr>now_update = 3000, now_lap = 3000, now_finish = 3000\<rparr>,
        HitCheckpoint 1 \<lparr>now_update = 3000, now_lap = 3000, now_finish = 3000\<rparr>,
        HitCheckpoint 2 \<lparr>now_update = 3000, now_lap = 3000, now_finish = 3000\<rparr>,
        HitCheckpoint 3 \<lparr>now_update = 3000, now_lap = 3000, now_finish = 3000\<rparr>]
      (CheckpointSystem \<lparr>def_innerRadius = 25, def_outerRadius = 45\<rparr> True True)) = Inr 0 \<and>
   map_sum id (getTotalTime 5000 \<circ> fst) (run [HitCheckpoint 0 \<lparr>now_update = 1000, now_lap = 1000, now_finish = 1000\<rparr>,
        HitCheckpoint 1 \<lparr>now_update = 1000, now_lap = 1000, now_finish = 1000\<rparr>,
        HitCheckpoint 2 \<lparr>now_update = 1000, now_lap = 1000, now_finish = 1000\<rparr>,
        HitCheckpoint 3 \<lparr>now_update = 1000, now_lap = 1000, now_finish = 1000\<rparr>,
        HitCheckpoint 0 \<lparr>now_update = 2000, now_lap = 2000, now_finish = 2000\<rparr>,
        HitCheckpoint 1 \<lparr>now_update = 2000, now_lap = 2000, now_finish = 2000\<rparr>,
        HitCheckpoint 2 \<lparr>now_update = 2000, now_lap = 2000, now_finish = 2000\<rparr>,
        HitCheckpoint 3 \<lparr>now_update = 2000, now_lap = 2000, now_finish = 2000\<rparr>,
        HitCheckpoint 0 \<lparr>now_update = 3000, now_lap = 3000, now_finish = 3000\<rparr>,
        HitCheckpoint 1 \<lparr>now_update = 3000, now_lap = 3000, now_finish = 3000\<rparr>,
        HitCheckpoint 2 \<lparr>now_update = 3000, now_lap = 3000, now_finish = 3000\<rparr>,
        HitCheckpoint 3 \<lparr>now_update = 3000, now_lap = 3000, now_finish = 3000\<rparr>]
      (CheckpointSystem \<lparr>def_innerRadius = 25, def_outerRadius = 45\<rparr> True True))
     \<noteq> map_sum id (sum_list \<circ> lapTimes \<circ> fst) (run [HitCheckpoint 0 \<lparr>now_update = 1000, now_lap = 1000, now_finish = 1000\<rparr>,
        HitCheckpoint 1 \<lparr>now_update = 1000, now_lap = 1000, now_finish = 1000\<rparr>,
        HitCheckpoint 2 \<lparr>now_update = 1000, now_lap = 1000, now_finish = 1000\<rparr>,
        HitCheckpoint 3 \<lparr>now_update = 1000, now_lap = 1000, now_finish = 1000\<rparr>,
        HitCheckpoint 0 \<lparr>now_update = 2000, now_lap = 2000, now_finish = 2000\<rparr>,
        HitCheckpoint 1 \<lparr>now_update = 2000, now_lap = 2000, now_finish = 2000\<rparr>,
        HitCheckpoint 2 \<lparr>now_update = 2000, now_lap = 2000, now_finish = 2000\<rparr>,
        HitCheckpoint 3 \<lparr>now_update = 2000, now_lap = 2000, now_finish = 2000\<rparr>,
        HitCheckpoint 0 \<lparr>now_update = 3000, now_lap = 3000, now_finish = 3000\<rparr>,
        HitCheckpoint 1 \<lparr>now_update = 3000, now_lap = 3000, now_finish = 3000\<rparr>,
        HitCheckpoint 2 \<lparr>now_update = 3000, now_lap = 3000, now_finish = 3000\<rparr>,
        HitCheckpoint 3 \<lparr>now_update = 3000, now_lap = 3000, now_finish = 3000\<rparr>]
      (CheckpointSystem \<lparr>def_innerRadius = 25, def_outerRadius = 45\<rparr> True True))"
  by (simp add: getTotalTime_def CheckpointSystem_update_def hitCheckpoint_def CheckpointSystem_def
      createCheckpoints_oval Let_def completeLap_def finishRace_def truthy_def to_number_def
      startCountdown_def runTimer_def tick_def vec_distance_def reset_def)

end
